theory Spec2Isabelle
  imports
    Complex_Main
    "HOL-Library.Sublist"
    "HOL-Library.List_Lexorder"
    "HOL-Library.Char_ord"
    "HOL-Library.Multiset"
begin

section \<open>Strings as the provider and the validator use them\<close>

text \<open>
  Text is modelled as \<^typ>\<open>string\<close>, one \<^typ>\<open>char\<close> per character, ordered
  lexicographically (the order of SQLite's default BINARY collation).  A \<^typ>\<open>char\<close> has
  eight bits: the texts of the model are those whose characters lie in U+0000 to U+00FF,
  each one code unit of the JavaScript string.
\<close>

text \<open>
  \<open>String.prototype.toLowerCase\<close> on these characters: the upper-case letters are
  \<open>A\<close> to \<open>Z\<close> (65 to 90) and U+00C0 to U+00DE without the multiplication sign U+00D7
  (192 to 222 without 215); each has its lower-case letter 32 places further on.
\<close>

definition lower_char :: "char \<Rightarrow> char" where
  "lower_char c =
     (let n = (of_char c :: nat)
      in if (65 \<le> n \<and> n \<le> 90) \<or> (192 \<le> n \<and> n \<le> 222 \<and> n \<noteq> 215)
         then char_of (n + 32) else c)"

definition toLowerCase :: "string \<Rightarrow> string" where
  "toLowerCase s = map lower_char s"

text \<open>The case folding of SQLite's \<open>LIKE\<close>, which folds the ASCII letters only.\<close>

definition ascii_lower :: "char \<Rightarrow> char" where
  "ascii_lower c =
     (let n = (of_char c :: nat) in if 65 \<le> n \<and> n \<le> 90 then char_of (n + 32) else c)"

text \<open>
  The white space of \<open>String.prototype.trim\<close> among these characters: tab, line feed,
  vertical tab, form feed, carriage return, space and the no-break space U+00A0.
\<close>

definition is_space :: "char \<Rightarrow> bool" where
  "is_space c = ((of_char c :: nat) \<in> {9, 10, 11, 12, 13, 32, 160})"

text \<open>\<open>String.prototype.trim\<close>: white space is removed at both ends.\<close>

definition trim :: "string \<Rightarrow> string" where
  "trim s = rev (dropWhile is_space (rev (dropWhile is_space s)))"

text \<open>
  \<open>String(n)\<close> and \<open>`${n}`\<close> for an integer \<open>n\<close>: its decimal digits, which is what
  JavaScript prints for the integers it represents exactly.
\<close>

fun digits_of :: "nat \<Rightarrow> string" where
  "digits_of n =
     (if n < 10 then [char_of (48 + n)]
      else digits_of (n div 10) @ [char_of (48 + n mod 10)])"

declare digits_of.simps [simp del]

definition String_of :: "int \<Rightarrow> string" where
  "String_of i = (if i < 0 then CHR ''-'' # digits_of (nat (- i)) else digits_of (nat i))"


text \<open>
  \<open>haystack.indexOf(needle, pos)\<close>: the start position is clamped to the length of the
  haystack; the result is the least index at or after it where the needle begins, and
  \<open>None\<close> stands for \<open>-1\<close>.  The empty needle is found at the clamped start.
\<close>

fun index_in :: "string \<Rightarrow> string \<Rightarrow> nat \<Rightarrow> nat option" where
  "index_in q [] k = (if q = [] then Some k else None)"
| "index_in q (x # xs) k = (if prefix q (x # xs) then Some k else index_in q xs (Suc k))"

definition indexOf :: "string \<Rightarrow> string \<Rightarrow> nat \<Rightarrow> nat option" where
  "indexOf s q pos = (let start = min pos (length s) in index_in q (drop start s) start)"

text \<open>\<open>s.slice(a, b)\<close> for \<open>0 \<le> a\<close> and \<open>0 \<le> b\<close>.\<close>

definition slice :: "string \<Rightarrow> nat \<Rightarrow> nat \<Rightarrow> string" where
  "slice s a b = take (b - a) (drop a s)"

text \<open>
  SQLite's \<open>text LIKE pattern\<close> without an escape character: \<open>%\<close> stands for any
  run of characters, \<open>_\<close> for any single one, and the ASCII letters match without regard
  to case; every other character matches itself only.
\<close>

fun like :: "string \<Rightarrow> string \<Rightarrow> bool" where
  "like [] s = (s = [])"
| "like (p # ps) s =
     (if p = CHR ''%'' then list_ex (like ps) (suffixes s)
      else (case s of
              [] \<Rightarrow> False
            | c # cs \<Rightarrow> (p = CHR ''_'' \<or> ascii_lower p = ascii_lower c) \<and> like ps cs))"

subsection \<open>\<open>calculateScore\<close> and \<open>extractSnippet\<close>\<close>

text \<open>
  The counting loop of \<open>calculateScore\<close>, with \<open>cnt\<close> for its \<open>count\<close>:
  \<^verbatim>\<open>while ((pos = lowerContent.indexOf(lowerQuery, pos)) !== -1) { count++; pos += lowerQuery.length; }\<close>
  Nothing in the code bounds it, so it is a partial function: \<open>None\<close> is a loop that does
  not return.
\<close>

partial_function (option) count_loop :: "string \<Rightarrow> string \<Rightarrow> nat \<Rightarrow> nat \<Rightarrow> nat option" where
  "count_loop lowerContent lowerQuery cnt pos =
     (case indexOf lowerContent lowerQuery pos of
        None \<Rightarrow> Some cnt
      | Some i \<Rightarrow> count_loop lowerContent lowerQuery (cnt + 1) (i + length lowerQuery))"

declare count_loop.simps [code]

text \<open>
  The score is \<open>Math.min(1, count / 10)\<close>.  The quotient is taken in the rationals; for
  counts below ten the IEEE quotients are ordered as the exact ones are, and from ten on
  the minimum is exactly 1 in both.
\<close>

definition calculateScore :: "string \<Rightarrow> string \<Rightarrow> rat option" where
  "calculateScore content query =
     map_option (\<lambda>cnt. min 1 (of_nat cnt / 10))
       (count_loop (toLowerCase content) (toLowerCase query) 0 0)"

definition extractSnippet :: "string \<Rightarrow> string \<Rightarrow> string" where
  "extractSnippet content query =
     (case indexOf (toLowerCase content) (toLowerCase query) 0 of
        None \<Rightarrow> slice content 0 100 @ ''...''
      | Some index \<Rightarrow>
          (let start = index - 50;
               end = min (length content) (index + length query + 50);
               snippet = slice content start end;
               snippet = (if start > 0 then ''...'' @ snippet else snippet);
               snippet = (if end < length content then snippet @ ''...'' else snippet)
           in snippet))"

text \<open>
  The number of occurrences of a needle in a text, counted as the scan counts them: from
  left to right, an occurrence that is found is consumed whole, so counted occurrences
  never overlap.
\<close>

function occurrence_count :: "string \<Rightarrow> string \<Rightarrow> nat" where
  "occurrence_count q [] = 0"
| "occurrence_count q (x # xs) =
     (if q \<noteq> [] \<and> prefix q (x # xs)
      then Suc (occurrence_count q (drop (length q) (x # xs)))
      else occurrence_count q xs)"
  by pat_completeness auto
termination
  by (relation "measure (\<lambda>(q, s). length s)") (auto simp: neq_Nil_conv)


section \<open>The data model in transit\<close>

text \<open>
  The interfaces of the types module, one record each.  An optional field \<open>f?: T\<close> is a
  \<^typ>\<open>'a option\<close>, \<open>None\<close> for \<open>undefined\<close>.  File types and timeline event
  types are string unions that are erased at run time (the provider's \<open>getFile\<close> takes any
  string, and rows are read back with a cast), so they stay strings here.  The JSON payload
  of a timeline event is kept as its serialised text.
\<close>

datatype StorageFormat = directory | sqlite

datatype PlanStage = Idea | Shaping | Built | Executing | Completed | Cancelled

datatype StepStatus = pending | in_progress | completed | skipped

datatype GatheringMethod = manual | model_assisted

record PlanMetadata =
  meta_id :: string
  meta_name :: string
  meta_description :: "string option"
  meta_createdAt :: string
  meta_updatedAt :: string
  meta_stage :: PlanStage
  meta_schemaVersion :: int

record PlanStep =
  step_number :: int
  step_code :: string
  step_title :: string
  step_description :: "string option"
  step_status :: StepStatus
  step_startedAt :: "string option"
  step_completedAt :: "string option"
  step_content :: string

record PlanFile =
  file_type :: string
  file_filename :: string
  file_content :: string
  file_createdAt :: string
  file_updatedAt :: string

record TimelineEvent =
  event_id :: string
  event_timestamp :: string
  event_type :: string
  event_data :: string

record EvidenceRecord =
  evidence_id :: string
  evidence_description :: string
  evidence_source :: "string option"
  evidence_sourceUrl :: "string option"
  evidence_gatheringMethod :: "GatheringMethod option"
  evidence_content :: "string option"
  evidence_filePath :: "string option"
  evidence_relevanceScore :: "rat option"
  evidence_originalQuery :: "string option"
  evidence_summary :: "string option"
  evidence_createdAt :: string

record FeedbackRecord =
  feedback_id :: string
  feedback_title :: "string option"
  feedback_platform :: "string option"
  feedback_content :: string
  feedback_participants :: "string list option"
  feedback_createdAt :: string

record StepSnapshot =
  snap_number :: int
  snap_status :: StepStatus
  snap_startedAt :: "string option"
  snap_completedAt :: "string option"

record FileSnapshot =
  snap_type :: string
  snap_filename :: string
  snap_content :: string

record CheckpointSnapshot =
  snapshot_metadata :: PlanMetadata
  snapshot_steps :: "StepSnapshot list"
  snapshot_files :: "FileSnapshot list"

record Checkpoint =
  checkpoint_name :: string
  checkpoint_message :: string
  checkpoint_createdAt :: string
  checkpoint_snapshot :: CheckpointSnapshot

text \<open>
  \<open>StorageResult<T>\<close> is \<open>{success, data?, error?}\<close>.  Where \<open>T\<close> is \<open>X | null\<close>
  the payload \<open>null\<close> is \<open>Some None\<close> and a missing payload is \<open>None\<close>.
\<close>

record 'a StorageResult =
  success :: bool
  data :: "'a option"
  error :: "string option"

definition succeeded :: "unit StorageResult" where
  "succeeded = \<lparr>success = True, data = None, error = None\<rparr>"

definition succeeded_with :: "'a \<Rightarrow> 'a StorageResult" where
  "succeeded_with x = \<lparr>success = True, data = Some x, error = None\<rparr>"

definition failed :: "string \<Rightarrow> 'a StorageResult" where
  "failed msg = \<lparr>success = False, data = None, error = Some msg\<rparr>"

fun stage_text :: "PlanStage \<Rightarrow> string" where
  "stage_text Idea = ''idea''"
| "stage_text Shaping = ''shaping''"
| "stage_text Built = ''built''"
| "stage_text Executing = ''executing''"
| "stage_text Completed = ''completed''"
| "stage_text Cancelled = ''cancelled''"

fun status_text :: "StepStatus \<Rightarrow> string" where
  "status_text pending = ''pending''"
| "status_text in_progress = ''in_progress''"
| "status_text completed = ''completed''"
| "status_text skipped = ''skipped''"

section \<open>The migration validator\<close>

datatype ValidationErrorType =
  missing_step | content_mismatch | metadata_difference | missing_file | missing_event

text \<open>The \<open>expected\<close> and \<open>actual\<close> fields are \<open>unknown\<close>: these are the values the validator stores there.\<close>

datatype detail =
  Null
  | Text string
  | StepValue PlanStep
  | FileValue PlanFile
  | EvidenceValue EvidenceRecord
  | FeedbackValue FeedbackRecord

record ValidationError =
  err_type :: ValidationErrorType
  err_path :: string
  err_expected :: detail
  err_actual :: detail
  err_message :: string

record ValidationStats =
  stepsCompared :: nat
  filesCompared :: nat
  timelineEventsCompared :: nat
  evidenceCompared :: nat
  feedbackCompared :: nat

record ValidationResult =
  vr_valid :: bool
  vr_errors :: "ValidationError list"
  vr_warnings :: "string list"
  vr_stats :: ValidationStats

text \<open>
  What the validator awaits from one provider: the results of its six bulk reads.  The
  validator is written against the provider interface, so any results are possible.
\<close>

record provider_reads =
  read_metadata :: "PlanMetadata StorageResult"
  read_steps :: "PlanStep list StorageResult"
  read_files :: "PlanFile list StorageResult"
  read_timeline :: "TimelineEvent list StorageResult"
  read_evidence :: "EvidenceRecord list StorageResult"
  read_feedback :: "FeedbackRecord list StorageResult"

text \<open>The guard \<open>!result.success || !result.data\<close>; an empty array is truthy.\<close>

definition unreadable :: "'a StorageResult \<Rightarrow> bool" where
  "unreadable r = (\<not> success r \<or> data r = None)"

text \<open>\<open>result.data || []\<close>.\<close>

definition data_or_empty :: "'a list StorageResult \<Rightarrow> 'a list" where
  "data_or_empty r = (case data r of None \<Rightarrow> [] | Some xs \<Rightarrow> xs)"

definition metadata_unreadable_error :: "string \<Rightarrow> string \<Rightarrow> ValidationError" where
  "metadata_unreadable_error actual message =
     \<lparr>err_type = metadata_difference, err_path = ''metadata'',
      err_expected = Text ''valid metadata'', err_actual = Text actual,
      err_message = message\<rparr>"

definition metadata_field_error :: "string \<Rightarrow> string \<Rightarrow> string \<Rightarrow> string \<Rightarrow> ValidationError" where
  "metadata_field_error field label expected actual =
     \<lparr>err_type = metadata_difference, err_path = ''metadata.'' @ field,
      err_expected = Text expected, err_actual = Text actual,
      err_message = ''Plan '' @ label @ '' mismatch: expected \"'' @ expected @ ''\", got \"''
                     @ actual @ ''\"''\<rparr>"

definition validateMetadata ::
  "PlanMetadata StorageResult \<Rightarrow> PlanMetadata StorageResult \<Rightarrow> ValidationError list
     \<Rightarrow> ValidationError list" where
  "validateMetadata sourceResult targetResult errors =
     (case (success sourceResult, data sourceResult) of
        (True, Some sourceData) \<Rightarrow>
          (case (success targetResult, data targetResult) of
             (True, Some targetData) \<Rightarrow>
               (let errors = (if meta_id sourceData \<noteq> meta_id targetData
                              then errors @ [metadata_field_error ''id'' ''ID''
                                               (meta_id sourceData) (meta_id targetData)]
                              else errors);
                    errors = (if meta_name sourceData \<noteq> meta_name targetData
                              then errors @ [metadata_field_error ''name'' ''name''
                                               (meta_name sourceData) (meta_name targetData)]
                              else errors);
                    errors = (if meta_stage sourceData \<noteq> meta_stage targetData
                              then errors @ [metadata_field_error ''stage'' ''stage''
                                               (stage_text (meta_stage sourceData))
                                               (stage_text (meta_stage targetData))]
                              else errors)
                in errors)
           | _ \<Rightarrow> errors @ [metadata_unreadable_error ''failed to read target metadata''
                               ''Could not read target metadata''])
      | _ \<Rightarrow> errors @ [metadata_unreadable_error ''failed to read source metadata''
                          ''Could not read source metadata''])"

definition step_mismatch_error :: "int \<Rightarrow> string \<Rightarrow> string \<Rightarrow> string \<Rightarrow> ValidationError" where
  "step_mismatch_error n field expected actual =
     \<lparr>err_type = content_mismatch,
      err_path = ''steps['' @ String_of n @ ''].'' @ field,
      err_expected = Text expected, err_actual = Text actual,
      err_message = ''Step '' @ String_of n @ '' '' @ field @ '' mismatch''\<rparr>"

definition chars :: "string \<Rightarrow> string" where
  "chars s = String_of (int (length s)) @ '' chars''"

text \<open>The body of the loop over the source steps.\<close>

definition check_source_step :: "PlanStep list \<Rightarrow> ValidationError list \<Rightarrow> PlanStep \<Rightarrow> ValidationError list" where
  "check_source_step targetSteps errors sourceStep =
     (case find (\<lambda>s. step_number s = step_number sourceStep) targetSteps of
        None \<Rightarrow>
          errors @ [\<lparr>err_type = missing_step,
                     err_path = ''steps['' @ String_of (step_number sourceStep) @ '']'',
                     err_expected = StepValue sourceStep, err_actual = Null,
                     err_message = ''Step '' @ String_of (step_number sourceStep)
                                    @ '' is missing in target''\<rparr>]
      | Some targetStep \<Rightarrow>
          (let n = step_number sourceStep;
               errors = (if step_title sourceStep \<noteq> step_title targetStep
                         then errors @ [step_mismatch_error n ''title''
                                          (step_title sourceStep) (step_title targetStep)]
                         else errors);
               errors = (if step_status sourceStep \<noteq> step_status targetStep
                         then errors @ [step_mismatch_error n ''status''
                                          (status_text (step_status sourceStep))
                                          (status_text (step_status targetStep))]
                         else errors);
               sourceContent = trim (step_content sourceStep);
               targetContent = trim (step_content targetStep);
               errors = (if sourceContent \<noteq> targetContent
                         then errors @ [step_mismatch_error n ''content''
                                          (chars sourceContent) (chars targetContent)]
                         else errors)
           in errors))"

text \<open>The body of the loop over the target steps, which looks for extra ones.\<close>

definition check_target_step :: "PlanStep list \<Rightarrow> ValidationError list \<Rightarrow> PlanStep \<Rightarrow> ValidationError list" where
  "check_target_step sourceSteps errors targetStep =
     (case find (\<lambda>s. step_number s = step_number targetStep) sourceSteps of
        None \<Rightarrow>
          errors @ [\<lparr>err_type = content_mismatch,
                     err_path = ''steps['' @ String_of (step_number targetStep) @ '']'',
                     err_expected = Null, err_actual = StepValue targetStep,
                     err_message = ''Unexpected step '' @ String_of (step_number targetStep)
                                    @ '' in target''\<rparr>]
      | Some sourceStep \<Rightarrow> errors)"

definition validateSteps ::
  "PlanStep list StorageResult \<Rightarrow> PlanStep list StorageResult \<Rightarrow> ValidationError list
     \<Rightarrow> nat \<times> ValidationError list" where
  "validateSteps sourceResult targetResult errors =
     (if unreadable sourceResult then (0, errors)
      else
        (let sourceSteps = data_or_empty sourceResult;
             targetSteps = data_or_empty targetResult;
             errors = foldl (check_source_step targetSteps) errors sourceSteps;
             errors = foldl (check_target_step sourceSteps) errors targetSteps
         in (length sourceSteps, errors)))"

definition check_source_file :: "PlanFile list \<Rightarrow> ValidationError list \<Rightarrow> PlanFile \<Rightarrow> ValidationError list" where
  "check_source_file targetFiles errors sourceFile =
     (case find (\<lambda>f. file_type f = file_type sourceFile
                      \<and> file_filename f = file_filename sourceFile) targetFiles of
        None \<Rightarrow>
          errors @ [\<lparr>err_type = missing_file,
                     err_path = ''files['' @ file_type sourceFile @ ''/''
                                 @ file_filename sourceFile @ '']'',
                     err_expected = FileValue sourceFile, err_actual = Null,
                     err_message = ''File '' @ file_filename sourceFile @ '' (''
                                    @ file_type sourceFile @ '') is missing in target''\<rparr>]
      | Some targetFile \<Rightarrow>
          (let sourceContent = trim (file_content sourceFile);
               targetContent = trim (file_content targetFile)
           in if sourceContent \<noteq> targetContent
              then errors @ [\<lparr>err_type = content_mismatch,
                               err_path = ''files['' @ file_type sourceFile @ ''/''
                                           @ file_filename sourceFile @ ''].content'',
                               err_expected = Text (chars sourceContent),
                               err_actual = Text (chars targetContent),
                               err_message = ''File '' @ file_filename sourceFile
                                              @ '' content mismatch''\<rparr>]
              else errors))"

definition validateFiles ::
  "PlanFile list StorageResult \<Rightarrow> PlanFile list StorageResult \<Rightarrow> ValidationError list
     \<Rightarrow> nat \<times> ValidationError list" where
  "validateFiles sourceResult targetResult errors =
     (if unreadable sourceResult then (0, errors)
      else
        (let sourceFiles = data_or_empty sourceResult;
             targetFiles = data_or_empty targetResult
         in (length sourceFiles, foldl (check_source_file targetFiles) errors sourceFiles)))"

definition check_source_event :: "TimelineEvent list \<Rightarrow> string list \<Rightarrow> TimelineEvent \<Rightarrow> string list" where
  "check_source_event targetEvents warnings sourceEvent =
     (case find (\<lambda>e. event_type e = event_type sourceEvent
                      \<and> event_timestamp e = event_timestamp sourceEvent) targetEvents of
        None \<Rightarrow>
          warnings @ [''Timeline event '' @ event_type sourceEvent @ '' at ''
                       @ event_timestamp sourceEvent @ '' not found in target'']
      | Some targetEvent \<Rightarrow> warnings)"

text \<open>
  \<open>validateTimeline\<close> receives both accumulators and returns both; the source never pushes
  onto \<open>errors\<close> there.
\<close>

definition validateTimeline ::
  "TimelineEvent list StorageResult \<Rightarrow> TimelineEvent list StorageResult
     \<Rightarrow> ValidationError list \<Rightarrow> string list \<Rightarrow> nat \<times> ValidationError list \<times> string list" where
  "validateTimeline sourceResult targetResult errors warnings =
     (if unreadable sourceResult then (0, errors, warnings)
      else
        (let sourceEvents = data_or_empty sourceResult;
             targetEvents = data_or_empty targetResult
         in (length sourceEvents, errors,
             foldl (check_source_event targetEvents) warnings sourceEvents)))"

definition check_source_evidence ::
  "EvidenceRecord list \<Rightarrow> ValidationError list \<Rightarrow> EvidenceRecord \<Rightarrow> ValidationError list" where
  "check_source_evidence targetEvidence errors sourceItem =
     (case find (\<lambda>e. evidence_description e = evidence_description sourceItem) targetEvidence of
        None \<Rightarrow>
          errors @ [\<lparr>err_type = missing_file,
                     err_path = ''evidence['' @ evidence_id sourceItem @ '']'',
                     err_expected = EvidenceValue sourceItem, err_actual = Null,
                     err_message = ''Evidence \"'' @ evidence_description sourceItem
                                    @ ''\" is missing in target''\<rparr>]
      | Some targetItem \<Rightarrow> errors)"

definition validateEvidence ::
  "EvidenceRecord list StorageResult \<Rightarrow> EvidenceRecord list StorageResult
     \<Rightarrow> ValidationError list \<Rightarrow> nat \<times> ValidationError list" where
  "validateEvidence sourceResult targetResult errors =
     (if unreadable sourceResult then (0, errors)
      else
        (let sourceEvidence = data_or_empty sourceResult;
             targetEvidence = data_or_empty targetResult
         in (length sourceEvidence,
             foldl (check_source_evidence targetEvidence) errors sourceEvidence)))"

text \<open>\<open>sourceItem.title || sourceItem.id\<close>: an absent or empty title gives way to the id.\<close>

definition title_or_id :: "FeedbackRecord \<Rightarrow> string" where
  "title_or_id item =
     (case feedback_title item of
        None \<Rightarrow> feedback_id item
      | Some t \<Rightarrow> if t = [] then feedback_id item else t)"

definition check_source_feedback ::
  "FeedbackRecord list \<Rightarrow> ValidationError list \<Rightarrow> FeedbackRecord \<Rightarrow> ValidationError list" where
  "check_source_feedback targetFeedback errors sourceItem =
     (case find (\<lambda>f. feedback_content f = feedback_content sourceItem) targetFeedback of
        None \<Rightarrow>
          errors @ [\<lparr>err_type = missing_file,
                     err_path = ''feedback['' @ feedback_id sourceItem @ '']'',
                     err_expected = FeedbackValue sourceItem, err_actual = Null,
                     err_message = ''Feedback \"'' @ title_or_id sourceItem
                                    @ ''\" is missing in target''\<rparr>]
      | Some targetItem \<Rightarrow> errors)"

definition validateFeedback ::
  "FeedbackRecord list StorageResult \<Rightarrow> FeedbackRecord list StorageResult
     \<Rightarrow> ValidationError list \<Rightarrow> nat \<times> ValidationError list" where
  "validateFeedback sourceResult targetResult errors =
     (if unreadable sourceResult then (0, errors)
      else
        (let sourceFeedback = data_or_empty sourceResult;
             targetFeedback = data_or_empty targetResult
         in (length sourceFeedback,
             foldl (check_source_feedback targetFeedback) errors sourceFeedback)))"

definition validate :: "provider_reads \<Rightarrow> provider_reads \<Rightarrow> ValidationResult" where
  "validate source target =
     (let errors = [];
          warnings = [];
          errors = validateMetadata (read_metadata source) (read_metadata target) errors;
          (stepsResult, errors) = validateSteps (read_steps source) (read_steps target) errors;
          (filesResult, errors) = validateFiles (read_files source) (read_files target) errors;
          (timelineResult, errors, warnings) =
             validateTimeline (read_timeline source) (read_timeline target) errors warnings;
          (evidenceResult, errors) =
             validateEvidence (read_evidence source) (read_evidence target) errors;
          (feedbackResult, errors) =
             validateFeedback (read_feedback source) (read_feedback target) errors
      in \<lparr>vr_valid = (length errors = 0),
          vr_errors = errors,
          vr_warnings = warnings,
          vr_stats = \<lparr>stepsCompared = stepsResult, filesCompared = filesResult,
                   timelineEventsCompared = timelineResult,
                   evidenceCompared = evidenceResult,
                   feedbackCompared = feedbackResult\<rparr>\<rparr>)"


section \<open>The embedded-database provider\<close>

subsection \<open>The store\<close>

text \<open>
  The tables of the schema that the provider reads and writes.  A row is a pair of its
  \<open>plan_id\<close> column and its other columns; a row of \<open>plans\<close> is its \<open>id\<close> and the
  plan's columns (\<open>code\<close> is \<open>meta_id\<close>).  A nullable column holds \<open>None\<close> for NULL; the
  NOT NULL columns cannot be violated by values of these types.  The provider never reads
  the surrogate \<open>id\<close> columns of the other tables, so they are left out.
  \<open>has_schema\<close> says whether the tables exist: preparing a statement on a store
  without them throws.  \<open>plans_sequence\<close> is the AUTOINCREMENT counter of \<open>plans\<close>.
\<close>

record database =
  has_schema :: bool
  plans :: "(nat \<times> PlanMetadata) list"
  plans_sequence :: nat
  plan_steps :: "(nat \<times> PlanStep) list"
  plan_files :: "(nat \<times> PlanFile) list"
  timeline_events :: "(nat \<times> TimelineEvent) list"
  evidence_records :: "(nat \<times> EvidenceRecord) list"
  feedback_records :: "(nat \<times> FeedbackRecord) list"
  checkpoints :: "(nat \<times> Checkpoint) list"

definition empty_database :: database where
  "empty_database =
     \<lparr>has_schema = False, plans = [], plans_sequence = 0, plan_steps = [], plan_files = [],
      timeline_events = [], evidence_records = [], feedback_records = [], checkpoints = []\<rparr>"

text \<open>
  The provider object: its path, the store behind its handle, and the cached plan id.
  \<open>randomUUID()\<close> is the next element of a stream that belongs to the environment.
\<close>

record SqliteStorageProvider =
  path :: string
  db :: database
  planId :: "nat option"
  uuid_stream :: "nat \<Rightarrow> string"
  uuids_drawn :: nat


text \<open>The constructor on a path where no store exists yet.\<close>

definition new_provider :: "string \<Rightarrow> (nat \<Rightarrow> string) \<Rightarrow> SqliteStorageProvider" where
  "new_provider planPath stream =
     \<lparr>path = planPath, db = empty_database, planId = None,
      uuid_stream = stream, uuids_drawn = 0\<rparr>"

text \<open>\<open>x || null\<close> and \<open>x || undefined\<close> on an optional string: the empty string is falsy.\<close>

definition or_null :: "string option \<Rightarrow> string option" where
  "or_null x = (case x of None \<Rightarrow> None | Some s \<Rightarrow> if s = [] then None else Some s)"

text \<open>A thrown \<open>Error\<close> is \<open>Inl\<close> of its message.\<close>

definition no_such_table :: "string \<Rightarrow> string" where
  "no_such_table t = ''no such table: '' @ t"

text \<open>\<open>this.db.prepare(sql)\<close> on a statement that names table \<open>t\<close>.\<close>

definition prepare :: "string \<Rightarrow> database \<Rightarrow> string + unit" where
  "prepare t d = (if has_schema d then Inr () else Inl (no_such_table t))"

definition initializeSchema :: "database \<Rightarrow> database" where
  "initializeSchema d = d\<lparr>has_schema := True\<rparr>"

text \<open>
  \<open>getPlanId\<close>: the cached id or else the answer to \<open>SELECT id FROM plans LIMIT 1\<close>,
  which is then cached.  The query has no \<open>ORDER BY\<close>; of several plan rows the model
  takes the one inserted first.
\<close>

definition getPlanId :: "SqliteStorageProvider \<Rightarrow> string + (nat \<times> SqliteStorageProvider)" where
  "getPlanId p =
     (case planId p of
        Some i \<Rightarrow> Inr (i, p)
      | None \<Rightarrow>
          (case prepare ''plans'' (db p) of
             Inl e \<Rightarrow> Inl e
           | Inr _ \<Rightarrow>
               (case plans (db p) of
                  [] \<Rightarrow> Inl ''No plan found in database''
                | row # _ \<Rightarrow> Inr (fst row, p\<lparr>planId := Some (fst row)\<rparr>))))"

text \<open>The foreign key of every child table: the plan the row names must exist.\<close>

definition foreign_key_ok :: "nat \<Rightarrow> database \<Rightarrow> bool" where
  "foreign_key_ok pid d = (pid \<in> set (map fst (plans d)))"

definition foreign_key_failed :: string where
  "foreign_key_failed = ''FOREIGN KEY constraint failed''"

subsection \<open>Core operations\<close>

definition exists :: "SqliteStorageProvider \<Rightarrow> bool" where
  "exists p =
     (case prepare ''plans'' (db p) of
        Inl e \<Rightarrow> False
      | Inr _ \<Rightarrow> length (plans (db p)) > 0)"

definition next_plan_id :: "database \<Rightarrow> nat" where
  "next_plan_id d = Suc (fold max (map fst (plans d)) (plans_sequence d))"

definition initialize ::
  "PlanMetadata \<Rightarrow> SqliteStorageProvider \<Rightarrow> unit StorageResult \<times> SqliteStorageProvider" where
  "initialize metadata p =
     (let d = initializeSchema (db p)
      in if \<exists>row \<in> set (plans d). meta_id (snd row) = meta_id metadata
         then (failed ''UNIQUE constraint failed: plans.code'', p\<lparr>db := d\<rparr>)
         else
           (let lastInsertRowid = next_plan_id d;
                row = (lastInsertRowid,
                       metadata\<lparr>meta_description := or_null (meta_description metadata)\<rparr>)
            in (succeeded,
                p\<lparr>db := d\<lparr>plans := plans d @ [row], plans_sequence := lastInsertRowid\<rparr>,
                  planId := Some lastInsertRowid\<rparr>)))"

subsection \<open>Metadata operations\<close>

definition getMetadata ::
  "SqliteStorageProvider \<Rightarrow> PlanMetadata StorageResult \<times> SqliteStorageProvider" where
  "getMetadata p =
     (case prepare ''plans'' (db p) of
        Inl e \<Rightarrow> (failed e, p)
      | Inr _ \<Rightarrow>
          (case getPlanId p of
             Inl e \<Rightarrow> (failed e, p)
           | Inr (pid, p) \<Rightarrow>
               (case find (\<lambda>row. fst row = pid) (plans (db p)) of
                  None \<Rightarrow> (failed ''Plan not found'', p)
                | Some row \<Rightarrow>
                    (succeeded_with
                       ((snd row)\<lparr>meta_description := or_null (meta_description (snd row))\<rparr>),
                     p))))"

text \<open>\<open>Partial<PlanMetadata>\<close>: every field may be absent.\<close>

record PartialPlanMetadata =
  pm_id :: "string option"
  pm_name :: "string option"
  pm_description :: "string option"
  pm_createdAt :: "string option"
  pm_updatedAt :: "string option"
  pm_stage :: "PlanStage option"
  pm_schemaVersion :: "int option"

text \<open>
  The SET clause that \<open>updateMetadata\<close> assembles: the three patchable columns when they are
  supplied, and \<open>updated_at\<close> always.  \<open>now\<close> is \<open>new Date().toISOString()\<close>.
\<close>

definition set_plan_columns :: "PartialPlanMetadata \<Rightarrow> string \<Rightarrow> PlanMetadata \<Rightarrow> PlanMetadata" where
  "set_plan_columns metadata now row =
     (let row = (case pm_name metadata of None \<Rightarrow> row | Some v \<Rightarrow> row\<lparr>meta_name := v\<rparr>);
          row = (case pm_description metadata of
                   None \<Rightarrow> row | Some v \<Rightarrow> row\<lparr>meta_description := Some v\<rparr>);
          row = (case pm_stage metadata of None \<Rightarrow> row | Some v \<Rightarrow> row\<lparr>meta_stage := v\<rparr>)
      in row\<lparr>meta_updatedAt := now\<rparr>)"

definition update_where :: "('r \<Rightarrow> bool) \<Rightarrow> ('r \<Rightarrow> 'r) \<Rightarrow> 'r list \<Rightarrow> 'r list" where
  "update_where cond f rows = map (\<lambda>row. if cond row then f row else row) rows"

definition updateMetadata ::
  "PartialPlanMetadata \<Rightarrow> string \<Rightarrow> SqliteStorageProvider
     \<Rightarrow> unit StorageResult \<times> SqliteStorageProvider" where
  "updateMetadata metadata now p =
     (case getPlanId p of
        Inl e \<Rightarrow> (failed e, p)
      | Inr (pid, p) \<Rightarrow>
          (case prepare ''plans'' (db p) of
             Inl e \<Rightarrow> (failed e, p)
           | Inr _ \<Rightarrow>
               (succeeded,
                p\<lparr>db := (db p)\<lparr>plans :=
                     update_where (\<lambda>row. fst row = pid)
                       (\<lambda>row. (fst row, set_plan_columns metadata now (snd row)))
                       (plans (db p))\<rparr>\<rparr>)))"

subsection \<open>Step operations\<close>

definition step_of_row :: "PlanStep \<Rightarrow> PlanStep" where
  "step_of_row row =
     row\<lparr>step_description := or_null (step_description row),
         step_startedAt := or_null (step_startedAt row),
         step_completedAt := or_null (step_completedAt row)\<rparr>"

definition rows_of_plan :: "nat \<Rightarrow> (nat \<times> 'r) list \<Rightarrow> 'r list" where
  "rows_of_plan pid rows = map snd (filter (\<lambda>row. fst row = pid) rows)"

definition getSteps ::
  "SqliteStorageProvider \<Rightarrow> PlanStep list StorageResult \<times> SqliteStorageProvider" where
  "getSteps p =
     (case prepare ''plan_steps'' (db p) of
        Inl e \<Rightarrow> (failed e, p)
      | Inr _ \<Rightarrow>
          (case getPlanId p of
             Inl e \<Rightarrow> (failed e, p)
           | Inr (pid, p) \<Rightarrow>
               (succeeded_with
                  (map step_of_row (sort_key step_number (rows_of_plan pid (plan_steps (db p))))),
                p)))"

definition getStep ::
  "int \<Rightarrow> SqliteStorageProvider \<Rightarrow> PlanStep option StorageResult \<times> SqliteStorageProvider" where
  "getStep number p =
     (case prepare ''plan_steps'' (db p) of
        Inl e \<Rightarrow> (failed e, p)
      | Inr _ \<Rightarrow>
          (case getPlanId p of
             Inl e \<Rightarrow> (failed e, p)
           | Inr (pid, p) \<Rightarrow>
               (case find (\<lambda>row. step_number row = number)
                       (rows_of_plan pid (plan_steps (db p))) of
                  None \<Rightarrow> (succeeded_with None, p)
                | Some row \<Rightarrow> (succeeded_with (Some (step_of_row row)), p))))"

definition addStep ::
  "PlanStep \<Rightarrow> SqliteStorageProvider \<Rightarrow> unit StorageResult \<times> SqliteStorageProvider" where
  "addStep step p =
     (case prepare ''plan_steps'' (db p) of
        Inl e \<Rightarrow> (failed e, p)
      | Inr _ \<Rightarrow>
          (case getPlanId p of
             Inl e \<Rightarrow> (failed e, p)
           | Inr (pid, p) \<Rightarrow>
               if \<exists>row \<in> set (plan_steps (db p)).
                    fst row = pid \<and> step_number (snd row) = step_number step
               then (failed ''UNIQUE constraint failed: plan_steps.plan_id, plan_steps.number'', p)
               else if \<not> foreign_key_ok pid (db p) then (failed foreign_key_failed, p)
               else (succeeded,
                     p\<lparr>db := (db p)\<lparr>plan_steps :=
                          plan_steps (db p) @ [(pid, step_of_row step)]\<rparr>\<rparr>)))"

text \<open>\<open>Partial<PlanStep>\<close>.\<close>

record PartialPlanStep =
  ps_number :: "int option"
  ps_code :: "string option"
  ps_title :: "string option"
  ps_description :: "string option"
  ps_status :: "StepStatus option"
  ps_startedAt :: "string option"
  ps_completedAt :: "string option"
  ps_content :: "string option"

text \<open>\<open>fields.length === 0\<close>: none of the seven patchable fields is supplied.\<close>

definition no_step_fields :: "PartialPlanStep \<Rightarrow> bool" where
  "no_step_fields updates =
     (ps_code updates = None \<and> ps_title updates = None \<and> ps_description updates = None
      \<and> ps_status updates = None \<and> ps_startedAt updates = None
      \<and> ps_completedAt updates = None \<and> ps_content updates = None)"

definition set_step_columns :: "PartialPlanStep \<Rightarrow> PlanStep \<Rightarrow> PlanStep" where
  "set_step_columns updates row =
     (let row = (case ps_code updates of None \<Rightarrow> row | Some v \<Rightarrow> row\<lparr>step_code := v\<rparr>);
          row = (case ps_title updates of None \<Rightarrow> row | Some v \<Rightarrow> row\<lparr>step_title := v\<rparr>);
          row = (case ps_description updates of
                   None \<Rightarrow> row | Some v \<Rightarrow> row\<lparr>step_description := Some v\<rparr>);
          row = (case ps_status updates of None \<Rightarrow> row | Some v \<Rightarrow> row\<lparr>step_status := v\<rparr>);
          row = (case ps_startedAt updates of
                   None \<Rightarrow> row | Some v \<Rightarrow> row\<lparr>step_startedAt := Some v\<rparr>);
          row = (case ps_completedAt updates of
                   None \<Rightarrow> row | Some v \<Rightarrow> row\<lparr>step_completedAt := Some v\<rparr>);
          row = (case ps_content updates of None \<Rightarrow> row | Some v \<Rightarrow> row\<lparr>step_content := v\<rparr>)
      in row)"

definition updateStep ::
  "int \<Rightarrow> PartialPlanStep \<Rightarrow> SqliteStorageProvider
     \<Rightarrow> unit StorageResult \<times> SqliteStorageProvider" where
  "updateStep number updates p =
     (if no_step_fields updates then (succeeded, p)
      else
        (case getPlanId p of
           Inl e \<Rightarrow> (failed e, p)
         | Inr (pid, p) \<Rightarrow>
             (case prepare ''plan_steps'' (db p) of
                Inl e \<Rightarrow> (failed e, p)
              | Inr _ \<Rightarrow>
                  (succeeded,
                   p\<lparr>db := (db p)\<lparr>plan_steps :=
                        update_where (\<lambda>row. fst row = pid \<and> step_number (snd row) = number)
                          (\<lambda>row. (fst row, set_step_columns updates (snd row)))
                          (plan_steps (db p))\<rparr>\<rparr>))))"

definition deleteStep ::
  "int \<Rightarrow> SqliteStorageProvider \<Rightarrow> unit StorageResult \<times> SqliteStorageProvider" where
  "deleteStep number p =
     (case prepare ''plan_steps'' (db p) of
        Inl e \<Rightarrow> (failed e, p)
      | Inr _ \<Rightarrow>
          (case getPlanId p of
             Inl e \<Rightarrow> (failed e, p)
           | Inr (pid, p) \<Rightarrow>
               (succeeded,
                p\<lparr>db := (db p)\<lparr>plan_steps :=
                     filter (\<lambda>row. \<not> (fst row = pid \<and> step_number (snd row) = number))
                       (plan_steps (db p))\<rparr>\<rparr>)))"

subsection \<open>File operations\<close>

definition getFiles ::
  "SqliteStorageProvider \<Rightarrow> PlanFile list StorageResult \<times> SqliteStorageProvider" where
  "getFiles p =
     (case prepare ''plan_files'' (db p) of
        Inl e \<Rightarrow> (failed e, p)
      | Inr _ \<Rightarrow>
          (case getPlanId p of
             Inl e \<Rightarrow> (failed e, p)
           | Inr (pid, p) \<Rightarrow> (succeeded_with (rows_of_plan pid (plan_files (db p))), p)))"

definition same_file :: "string \<Rightarrow> string \<Rightarrow> PlanFile \<Rightarrow> bool" where
  "same_file type filename row = (file_type row = type \<and> file_filename row = filename)"

definition getFile ::
  "string \<Rightarrow> string \<Rightarrow> SqliteStorageProvider
     \<Rightarrow> PlanFile option StorageResult \<times> SqliteStorageProvider" where
  "getFile type filename p =
     (case prepare ''plan_files'' (db p) of
        Inl e \<Rightarrow> (failed e, p)
      | Inr _ \<Rightarrow>
          (case getPlanId p of
             Inl e \<Rightarrow> (failed e, p)
           | Inr (pid, p) \<Rightarrow>
               (case find (same_file type filename) (rows_of_plan pid (plan_files (db p))) of
                  None \<Rightarrow> (succeeded_with None, p)
                | Some row \<Rightarrow> (succeeded_with (Some row), p))))"

text \<open>
  \<open>INSERT ... ON CONFLICT(plan_id, file_type, filename) DO UPDATE SET content =
  excluded.content, updated_at = excluded.updated_at\<close>.
\<close>

definition upsert_file :: "nat \<Rightarrow> PlanFile \<Rightarrow> database \<Rightarrow> string + database" where
  "upsert_file pid file d =
     (let conflict = (\<lambda>row. fst row = pid
                             \<and> same_file (file_type file) (file_filename file) (snd row))
      in if \<exists>row \<in> set (plan_files d). conflict row
         then Inr (d\<lparr>plan_files :=
                       update_where conflict
                         (\<lambda>row. (fst row, (snd row)\<lparr>file_content := file_content file,
                                                    file_updatedAt := file_updatedAt file\<rparr>))
                         (plan_files d)\<rparr>)
         else if \<not> foreign_key_ok pid d then Inl foreign_key_failed
         else Inr (d\<lparr>plan_files := plan_files d @ [(pid, file)]\<rparr>))"

definition saveFile ::
  "PlanFile \<Rightarrow> SqliteStorageProvider \<Rightarrow> unit StorageResult \<times> SqliteStorageProvider" where
  "saveFile file p =
     (case prepare ''plan_files'' (db p) of
        Inl e \<Rightarrow> (failed e, p)
      | Inr _ \<Rightarrow>
          (case getPlanId p of
             Inl e \<Rightarrow> (failed e, p)
           | Inr (pid, p) \<Rightarrow>
               (case upsert_file pid file (db p) of
                  Inl e \<Rightarrow> (failed e, p)
                | Inr d \<Rightarrow> (succeeded, p\<lparr>db := d\<rparr>))))"

definition deleteFile ::
  "string \<Rightarrow> string \<Rightarrow> SqliteStorageProvider
     \<Rightarrow> unit StorageResult \<times> SqliteStorageProvider" where
  "deleteFile type filename p =
     (case prepare ''plan_files'' (db p) of
        Inl e \<Rightarrow> (failed e, p)
      | Inr _ \<Rightarrow>
          (case getPlanId p of
             Inl e \<Rightarrow> (failed e, p)
           | Inr (pid, p) \<Rightarrow>
               (succeeded,
                p\<lparr>db := (db p)\<lparr>plan_files :=
                     filter (\<lambda>row. \<not> (fst row = pid \<and> same_file type filename (snd row)))
                       (plan_files (db p))\<rparr>\<rparr>)))"


text \<open>
  The constraint \<open>UNIQUE(plan_id, file_type, filename)\<close> of \<open>plan_files\<close>, which the
  engine keeps true of every store.
\<close>

definition file_key :: "nat \<times> PlanFile \<Rightarrow> nat \<times> string \<times> string" where
  "file_key row = (fst row, file_type (snd row), file_filename (snd row))"

definition unique_file_keys :: "database \<Rightarrow> bool" where
  "unique_file_keys d = distinct (map file_key (plan_files d))"

subsection \<open>Timeline, evidence and feedback operations\<close>














subsection \<open>Checkpoint operations\<close>


definition getCheckpoint ::
  "string \<Rightarrow> SqliteStorageProvider
     \<Rightarrow> Checkpoint option StorageResult \<times> SqliteStorageProvider" where
  "getCheckpoint name p =
     (case prepare ''checkpoints'' (db p) of
        Inl e \<Rightarrow> (failed e, p)
      | Inr _ \<Rightarrow>
          (case getPlanId p of
             Inl e \<Rightarrow> (failed e, p)
           | Inr (pid, p) \<Rightarrow>
               (case find (\<lambda>row. checkpoint_name row = name)
                       (rows_of_plan pid (checkpoints (db p))) of
                  None \<Rightarrow> (succeeded_with None, p)
                | Some row \<Rightarrow> (succeeded_with (Some row), p))))"

definition createCheckpoint ::
  "Checkpoint \<Rightarrow> SqliteStorageProvider \<Rightarrow> unit StorageResult \<times> SqliteStorageProvider" where
  "createCheckpoint checkpoint p =
     (case prepare ''checkpoints'' (db p) of
        Inl e \<Rightarrow> (failed e, p)
      | Inr _ \<Rightarrow>
          (case getPlanId p of
             Inl e \<Rightarrow> (failed e, p)
           | Inr (pid, p) \<Rightarrow>
               (let conflict = (\<lambda>row. fst row = pid
                                       \<and> checkpoint_name (snd row) = checkpoint_name checkpoint)
                in if \<exists>row \<in> set (checkpoints (db p)). conflict row
                   then (succeeded,
                         p\<lparr>db := (db p)\<lparr>checkpoints :=
                              update_where conflict (\<lambda>row. (fst row, checkpoint))
                                (checkpoints (db p))\<rparr>\<rparr>)
                   else if \<not> foreign_key_ok pid (db p) then (failed foreign_key_failed, p)
                   else (succeeded,
                         p\<lparr>db := (db p)\<lparr>checkpoints :=
                              checkpoints (db p) @ [(pid, checkpoint)]\<rparr>\<rparr>))))"




subsection \<open>\<open>restoreCheckpoint\<close>\<close>

text \<open>
  The three kinds of statement inside the restore transaction.  Besides a missing table,
  the engine itself may fail while a statement runs (a full disk, a lock, an I/O error):
  \<open>fault\<close> names the statement, counted from 0 in the order of execution, at which it
  does, if any.
\<close>

definition run_statement ::
  "nat option \<Rightarrow> nat \<Rightarrow> (database \<Rightarrow> string + database) \<Rightarrow> database \<Rightarrow> string + database" where
  "run_statement fault k statement d =
     (if fault = Some k then Inl ''disk I/O error'' else statement d)"

definition restored_plans ::
  "PlanMetadata \<Rightarrow> string \<Rightarrow> nat \<Rightarrow> (nat \<times> PlanMetadata) list \<Rightarrow> (nat \<times> PlanMetadata) list" where
  "restored_plans m now pid rows =
     update_where (\<lambda>row. fst row = pid)
       (\<lambda>row. (fst row, (snd row)\<lparr>meta_name := meta_name m,
                                  meta_description := or_null (meta_description m),
                                  meta_stage := meta_stage m,
                                  meta_updatedAt := now\<rparr>))
       rows"

definition restore_metadata_statement ::
  "PlanMetadata \<Rightarrow> string \<Rightarrow> nat \<Rightarrow> database \<Rightarrow> string + database" where
  "restore_metadata_statement m now pid d =
     (case prepare ''plans'' d of
        Inl e \<Rightarrow> Inl e
      | Inr _ \<Rightarrow> Inr (d\<lparr>plans := restored_plans m now pid (plans d)\<rparr>))"

definition restored_steps ::
  "nat \<Rightarrow> (nat \<times> PlanStep) list \<Rightarrow> StepSnapshot \<Rightarrow> (nat \<times> PlanStep) list" where
  "restored_steps pid rows step =
     update_where (\<lambda>row. fst row = pid \<and> step_number (snd row) = snap_number step)
       (\<lambda>row. (fst row, (snd row)\<lparr>step_status := snap_status step,
                                  step_startedAt := or_null (snap_startedAt step),
                                  step_completedAt := or_null (snap_completedAt step)\<rparr>))
       rows"

definition restore_step_statement :: "nat \<Rightarrow> StepSnapshot \<Rightarrow> database \<Rightarrow> string + database" where
  "restore_step_statement pid step d =
     (case prepare ''plan_steps'' d of
        Inl e \<Rightarrow> Inl e
      | Inr _ \<Rightarrow> Inr (d\<lparr>plan_steps := restored_steps pid (plan_steps d) step\<rparr>))"

text \<open>The file that the restore hands to the upsert, with both timestamps the current time.\<close>

definition restored_file :: "string \<Rightarrow> FileSnapshot \<Rightarrow> PlanFile" where
  "restored_file now file =
     \<lparr>file_type = snap_type file, file_filename = snap_filename file,
      file_content = snap_content file, file_createdAt = now, file_updatedAt = now\<rparr>"

definition restore_file_statement ::
  "nat \<Rightarrow> string \<Rightarrow> FileSnapshot \<Rightarrow> database \<Rightarrow> string + database" where
  "restore_file_statement pid now file d =
     (case prepare ''plan_files'' d of
        Inl e \<Rightarrow> Inl e
      | Inr _ \<Rightarrow> upsert_file pid (restored_file now file) d)"

text \<open>A \<open>for\<close> loop of statements; \<open>k\<close> is the index of its first statement.\<close>

fun run_statements ::
  "nat option \<Rightarrow> nat \<Rightarrow> (database \<Rightarrow> string + database) list \<Rightarrow> database \<Rightarrow> string + database" where
  "run_statements fault k [] d = Inr d"
| "run_statements fault k (statement # rest) d =
     (case run_statement fault k statement d of
        Inl e \<Rightarrow> Inl e
      | Inr d' \<Rightarrow> run_statements fault (Suc k) rest d')"

text \<open>The function handed to \<open>this.db.transaction\<close>.\<close>

definition restore_body ::
  "CheckpointSnapshot \<Rightarrow> nat \<Rightarrow> string \<Rightarrow> nat option \<Rightarrow> database \<Rightarrow> string + database" where
  "restore_body snapshot pid now fault d =
     (case run_statement fault 0
             (restore_metadata_statement (snapshot_metadata snapshot) now pid) d of
        Inl e \<Rightarrow> Inl e
      | Inr d \<Rightarrow>
          (case run_statements fault 1
                  (map (restore_step_statement pid) (snapshot_steps snapshot)) d of
             Inl e \<Rightarrow> Inl e
           | Inr d \<Rightarrow>
               run_statements fault (1 + length (snapshot_steps snapshot))
                 (map (restore_file_statement pid now) (snapshot_files snapshot)) d))"

text \<open>
  A transaction function of the database library: BEGIN, the body, then COMMIT; if the
  body throws, ROLLBACK and the error is thrown on.  The result is the error, if any, and
  the store afterwards.
\<close>

definition transaction ::
  "(database \<Rightarrow> string + database) \<Rightarrow> database \<Rightarrow> string option \<times> database" where
  "transaction body d = (case body d of Inl e \<Rightarrow> (Some e, d) | Inr d' \<Rightarrow> (None, d'))"

definition restoreCheckpoint ::
  "string \<Rightarrow> string \<Rightarrow> nat option \<Rightarrow> SqliteStorageProvider
     \<Rightarrow> unit StorageResult \<times> SqliteStorageProvider" where
  "restoreCheckpoint name now fault p =
     (case getCheckpoint name p of
        (checkpointResult, p) \<Rightarrow>
          (case (success checkpointResult, data checkpointResult) of
             (True, Some (Some checkpoint)) \<Rightarrow>
               (let snapshot = checkpoint_snapshot checkpoint
                in case getPlanId p of
                     Inl e \<Rightarrow> (failed e, p)
                   | Inr (pid, p) \<Rightarrow>
                       (case transaction (restore_body snapshot pid now fault) (db p) of
                          (Some e, d) \<Rightarrow> (failed e, p\<lparr>db := d\<rparr>)
                        | (None, d) \<Rightarrow> (succeeded, p\<lparr>db := d\<rparr>)))
           | _ \<Rightarrow> (failed (''Checkpoint not found: '' @ name), p)))"

text \<open>
  What the specification asks of a restore that goes through, row by row and without
  reference to the statements that carry it out.  The plan row takes the name, the
  description and the stage of the snapshot and the current time as its time of update,
  and keeps its code, its time of creation and its schema version.
\<close>

definition metadata_after_restore :: "PlanMetadata \<Rightarrow> string \<Rightarrow> PlanMetadata \<Rightarrow> PlanMetadata" where
  "metadata_after_restore m now row =
     \<lparr>meta_id = meta_id row, meta_name = meta_name m,
      meta_description = or_null (meta_description m),
      meta_createdAt = meta_createdAt row, meta_updatedAt = now,
      meta_stage = meta_stage m, meta_schemaVersion = meta_schemaVersion row\<rparr>"

text \<open>
  A step that the snapshot holds takes its status and its two timestamps from the
  snapshot (from the last entry with its number, should there be several) and keeps
  everything else; a step that the snapshot does not hold is left as it is.
\<close>

definition step_after_restore :: "StepSnapshot list \<Rightarrow> PlanStep \<Rightarrow> PlanStep" where
  "step_after_restore steps row =
     (case find (\<lambda>s. snap_number s = step_number row) (rev steps) of
        None \<Rightarrow> row
      | Some s \<Rightarrow>
          \<lparr>step_number = step_number row, step_code = step_code row,
           step_title = step_title row, step_description = step_description row,
           step_status = snap_status s, step_startedAt = or_null (snap_startedAt s),
           step_completedAt = or_null (snap_completedAt s),
           step_content = step_content row\<rparr>)"

text \<open>
  A file that the snapshot holds takes its content from the snapshot (from the last entry
  with its type and name) and the current time as its time of update, and keeps its time
  of creation; a file that the snapshot does not hold is left as it is.
\<close>

definition file_after_restore :: "FileSnapshot list \<Rightarrow> string \<Rightarrow> PlanFile \<Rightarrow> PlanFile" where
  "file_after_restore files now row =
     (case find (\<lambda>f. snap_type f = file_type row \<and> snap_filename f = file_filename row)
             (rev files) of
        None \<Rightarrow> row
      | Some f \<Rightarrow>
          \<lparr>file_type = file_type row, file_filename = file_filename row,
           file_content = snap_content f, file_createdAt = file_createdAt row,
           file_updatedAt = now\<rparr>)"

text \<open>
  A file of the snapshot that the plan has no row for is created, once for its type and
  name, with the content of the last entry of that type and name and the current time as
  both timestamps.  New rows follow the old ones, in the order in which the snapshot
  first names them.
\<close>

definition snapshot_key :: "FileSnapshot \<Rightarrow> string \<times> string" where
  "snapshot_key f = (snap_type f, snap_filename f)"

definition first_occurrences :: "'a list \<Rightarrow> 'a list" where
  "first_occurrences xs = rev (remdups (rev xs))"

definition files_without_row ::
  "nat \<Rightarrow> (nat \<times> PlanFile) list \<Rightarrow> FileSnapshot list \<Rightarrow> FileSnapshot list" where
  "files_without_row pid rows files =
     filter (\<lambda>f. \<not> (\<exists>row \<in> set rows. fst row = pid \<and> file_type (snd row) = snap_type f
                                      \<and> file_filename (snd row) = snap_filename f))
       files"

definition file_created :: "FileSnapshot list \<Rightarrow> string \<Rightarrow> string \<times> string \<Rightarrow> PlanFile" where
  "file_created files now key =
     \<lparr>file_type = fst key, file_filename = snd key,
      file_content = (case find (\<lambda>f. snapshot_key f = key) (rev files) of
                        None \<Rightarrow> [] | Some f \<Rightarrow> snap_content f),
      file_createdAt = now, file_updatedAt = now\<rparr>"

definition files_after_restore ::
  "FileSnapshot list \<Rightarrow> string \<Rightarrow> nat \<Rightarrow> (nat \<times> PlanFile) list \<Rightarrow> (nat \<times> PlanFile) list" where
  "files_after_restore files now pid rows =
     map (\<lambda>row. if fst row = pid then (fst row, file_after_restore files now (snd row)) else row)
       rows
     @ map (\<lambda>key. (pid, file_created files now key))
         (first_occurrences (map snapshot_key (files_without_row pid rows files)))"

text \<open>
  The store after the restore: the rows of the plan in \<open>plans\<close>, \<open>plan_steps\<close> and
  \<open>plan_files\<close> as above, the rows of other plans and all other tables as before.
\<close>

definition store_after_restore :: "CheckpointSnapshot \<Rightarrow> nat \<Rightarrow> string \<Rightarrow> database \<Rightarrow> database" where
  "store_after_restore snapshot pid now d =
     d\<lparr>plans :=
         map (\<lambda>row. if fst row = pid
                     then (fst row, metadata_after_restore (snapshot_metadata snapshot) now
                                      (snd row))
                     else row)
           (plans d),
       plan_steps :=
         map (\<lambda>row. if fst row = pid
                     then (fst row, step_after_restore (snapshot_steps snapshot) (snd row))
                     else row)
           (plan_steps d),
       plan_files := files_after_restore (snapshot_files snapshot) now pid (plan_files d)\<rparr>"

text \<open>
  The rows of \<open>plan_files\<close> after one upsert that went through, as \<open>upsert_file\<close>
  leaves them.
\<close>

definition upserted_files :: "nat \<Rightarrow> (nat \<times> PlanFile) list \<Rightarrow> PlanFile \<Rightarrow> (nat \<times> PlanFile) list" where
  "upserted_files pid rows file =
     (let conflict = (\<lambda>row. fst row = pid
                             \<and> same_file (file_type file) (file_filename file) (snd row))
      in if \<exists>row \<in> set rows. conflict row
         then update_where conflict
                (\<lambda>row. (fst row, (snd row)\<lparr>file_content := file_content file,
                                           file_updatedAt := file_updatedAt file\<rparr>))
                rows
         else rows @ [(pid, file)])"

text \<open>\<open>createSnapshot\<close>; the plan id that the reads cache is not kept.\<close>

definition createSnapshot :: "SqliteStorageProvider \<Rightarrow> string + CheckpointSnapshot" where
  "createSnapshot p =
     (let metadataResult = fst (getMetadata p);
          stepsResult = fst (getSteps p);
          filesResult = fst (getFiles p)
      in case (success metadataResult, data metadataResult) of
           (True, Some metadata) \<Rightarrow>
             Inr \<lparr>snapshot_metadata = metadata,
                  snapshot_steps =
                    map (\<lambda>s. \<lparr>snap_number = step_number s, snap_status = step_status s,
                               snap_startedAt = step_startedAt s,
                               snap_completedAt = step_completedAt s\<rparr>)
                      (data_or_empty stepsResult),
                  snapshot_files =
                    map (\<lambda>f. \<lparr>snap_type = file_type f, snap_filename = file_filename f,
                               snap_content = file_content f\<rparr>)
                      (data_or_empty filesResult)\<rparr>
         | _ \<Rightarrow> Inl ''Failed to get metadata for snapshot'')"

subsection \<open>Search\<close>

datatype SearchResultType =
  step_result | file_result | evidence_result | feedback_result | timeline_result

record SearchResult =
  sr_type :: SearchResultType
  sr_id :: string
  sr_snippet :: string
  sr_score :: rat

text \<open>
  One \<open>results.push\<close>: the snippet and the score of the scored text.  A score that is
  never returned leaves the whole search without a result.
\<close>

definition search_hit :: "SearchResultType \<Rightarrow> string \<Rightarrow> string \<Rightarrow> string \<Rightarrow> SearchResult option" where
  "search_hit type ident content query =
     map_option
       (\<lambda>score. \<lparr>sr_type = type, sr_id = ident,
                 sr_snippet = extractSnippet content query, sr_score = score\<rparr>)
       (calculateScore content query)"

definition searchPattern :: "string \<Rightarrow> string" where
  "searchPattern query = ''%'' @ query @ ''%''"

text \<open>\<open>title LIKE ? OR content LIKE ?\<close>; a NULL operand makes its comparison fail.\<close>

definition step_matches :: "string \<Rightarrow> PlanStep \<Rightarrow> bool" where
  "step_matches query row =
     (like (searchPattern query) (step_title row) \<or> like (searchPattern query) (step_content row))"

definition file_matches :: "string \<Rightarrow> PlanFile \<Rightarrow> bool" where
  "file_matches query row = like (searchPattern query) (file_content row)"

definition evidence_matches :: "string \<Rightarrow> EvidenceRecord \<Rightarrow> bool" where
  "evidence_matches query row =
     (like (searchPattern query) (evidence_description row)
      \<or> (case evidence_content row of None \<Rightarrow> False | Some c \<Rightarrow> like (searchPattern query) c))"

text \<open>\<open>row.content || row.description\<close>.\<close>

definition evidence_text :: "EvidenceRecord \<Rightarrow> string" where
  "evidence_text row =
     (case or_null (evidence_content row) of None \<Rightarrow> evidence_description row | Some c \<Rightarrow> c)"

definition step_hits :: "string \<Rightarrow> PlanStep list \<Rightarrow> SearchResult option list" where
  "step_hits query rows =
     map (\<lambda>row. search_hit step_result (String_of (step_number row)) (step_content row) query)
       (filter (step_matches query) rows)"

definition file_hits :: "string \<Rightarrow> PlanFile list \<Rightarrow> SearchResult option list" where
  "file_hits query rows =
     map (\<lambda>row. search_hit file_result (file_filename row) (file_content row) query)
       (filter (file_matches query) rows)"

definition evidence_hits :: "string \<Rightarrow> EvidenceRecord list \<Rightarrow> SearchResult option list" where
  "evidence_hits query rows =
     map (\<lambda>row. search_hit evidence_result (evidence_id row) (evidence_text row) query)
       (filter (evidence_matches query) rows)"

text \<open>
  \<open>results.sort((a, b) => b.score - a.score)\<close>: a stable sort on the score, greatest first.
\<close>

definition sort_by_score :: "SearchResult list \<Rightarrow> SearchResult list" where
  "sort_by_score results = sort_key (\<lambda>r. - sr_score r) results"

definition search ::
  "string \<Rightarrow> SqliteStorageProvider
     \<Rightarrow> (SearchResult list StorageResult \<times> SqliteStorageProvider) option" where
  "search query p =
     (case getPlanId p of
        Inl e \<Rightarrow> Some (failed e, p)
      | Inr (pid, p) \<Rightarrow>
          (case prepare ''plan_steps'' (db p) of
             Inl e \<Rightarrow> Some (failed e, p)
           | Inr _ \<Rightarrow>
               map_option (\<lambda>results. (succeeded_with (sort_by_score results), p))
                 (those (step_hits query (rows_of_plan pid (plan_steps (db p)))
                         @ file_hits query (rows_of_plan pid (plan_files (db p)))
                         @ evidence_hits query (rows_of_plan pid (evidence_records (db p)))))))"


text \<open>
  What a search scores, row by row in the order of the pool: the kind of the hit, its
  identifier and the text whose occurrences are counted.  For a step that is its content
  (also when only the title matched), for a file its content, for an evidence record its
  content or, without one, its description.
\<close>

definition matched_texts ::
  "string \<Rightarrow> nat \<Rightarrow> database \<Rightarrow> (SearchResultType \<times> string \<times> string) list" where
  "matched_texts query pid d =
     map (\<lambda>row. (step_result, String_of (step_number row), step_content row))
       (filter (step_matches query) (rows_of_plan pid (plan_steps d)))
     @ map (\<lambda>row. (file_result, file_filename row, file_content row))
         (filter (file_matches query) (rows_of_plan pid (plan_files d)))
     @ map (\<lambda>row. (evidence_result, evidence_id row, evidence_text row))
         (filter (evidence_matches query) (rows_of_plan pid (evidence_records d)))"

text \<open>The score the specification gives a text: \<open>min(1, occurrence_count / 10)\<close>.\<close>

definition saturated_score :: "string \<Rightarrow> string \<Rightarrow> rat" where
  "saturated_score content query =
     min 1 (of_nat (occurrence_count (toLowerCase query) (toLowerCase content)) / 10)"

definition expected_hit :: "string \<Rightarrow> SearchResultType \<times> string \<times> string \<Rightarrow> SearchResult" where
  "expected_hit query m =
     (case m of
        (type, ident, content) \<Rightarrow>
          \<lparr>sr_type = type, sr_id = ident, sr_snippet = extractSnippet content query,
           sr_score = saturated_score content query\<rparr>)"


section \<open>Format heuristics\<close>

text \<open>
  The file system as \<open>existsSync\<close>, \<open>statSync\<close>, \<open>readFileSync\<close>, \<open>unlinkSync\<close> and
  \<open>rmSync\<close> see it: what a path names, if anything, and whether the system refuses to
  remove it.  The bytes of a regular file are what reading it returns, \<open>None\<close> when the
  read throws.  Bytes are \<^typ>\<open>char\<close>s.
\<close>

datatype fs_entry = Directory | RegularFile "string option" | OtherEntry

record file_system =
  entry_at :: "string \<Rightarrow> fs_entry option"
  removal_refused :: "string \<Rightarrow> bool"

datatype DetectedFormat = detected StorageFormat | unknown

definition SQLITE_HEADER :: string where
  "SQLITE_HEADER = ''SQLite format 3'' @ [CHR 0x00]"

definition DIRECTORY_PLAN_MARKERS :: "string list" where
  "DIRECTORY_PLAN_MARKERS = [''SUMMARY.md'', ''STATUS.md'', ''IDEA.md'', ''EXECUTION_PLAN.md'']"

definition existsSync :: "file_system \<Rightarrow> string \<Rightarrow> bool" where
  "existsSync fs p = (entry_at fs p \<noteq> None)"

definition isDirectory :: "fs_entry \<Rightarrow> bool" where
  "isDirectory e = (e = Directory)"

definition isFile :: "fs_entry \<Rightarrow> bool" where
  "isFile e = (case e of RegularFile _ \<Rightarrow> True | _ \<Rightarrow> False)"

text \<open>\<open>join(dir, name)\<close>; resolving the joined path is the file system's part.\<close>

definition join :: "string \<Rightarrow> string \<Rightarrow> string" where
  "join dir name = dir @ ''/'' @ name"

definition endsWith :: "string \<Rightarrow> string \<Rightarrow> bool" where
  "endsWith s ending = suffix ending s"

definition hasSqliteHeader :: "file_system \<Rightarrow> string \<Rightarrow> bool" where
  "hasSqliteHeader fs filePath =
     (case entry_at fs filePath of
        Some (RegularFile (Some fd)) \<Rightarrow>
          if length fd < length SQLITE_HEADER then False
          else take (length SQLITE_HEADER) fd = SQLITE_HEADER
      | _ \<Rightarrow> False)"

definition detectPlanFormat :: "file_system \<Rightarrow> string \<Rightarrow> DetectedFormat" where
  "detectPlanFormat fs planPath =
     (case entry_at fs planPath of
        None \<Rightarrow> unknown
      | Some stats \<Rightarrow>
          if isDirectory stats then
            (if list_ex (\<lambda>marker. existsSync fs (join planPath marker)) DIRECTORY_PLAN_MARKERS
             then detected directory
             else
               (let planDir = join planPath ''plan''
                in if existsSync fs planDir \<and> entry_at fs planDir = Some Directory
                   then detected directory
                   else unknown))
          else if isFile stats then
            (if hasSqliteHeader fs planPath then detected sqlite
             else if endsWith planPath ''.plan'' then unknown
             else unknown)
          else unknown)"

section \<open>The migrator\<close>

text \<open>
  \<open>migrate\<close> takes two providers through the provider interface.  The repository has one
  implementation of it that stores anything, the embedded-database provider; source and
  target are such providers here.  Options that are left out are falsy.  The progress
  callback is its presence; the reports it receives are part of the outcome.  The duration
  is not modelled.
\<close>

record MigrationOptions =
  force :: bool
  keepSource :: bool
  validate_after :: bool
  onProgress :: bool





definition format :: "SqliteStorageProvider \<Rightarrow> StorageFormat" where
  "format p = sqlite"





















section \<open>Example stores\<close>

text \<open>Concrete values on which the theorems below are exercised.\<close>

definition example_metadata :: PlanMetadata where
  "example_metadata =
     \<lparr>meta_id = ''demo'', meta_name = ''Demo'', meta_description = None,
      meta_createdAt = ''2024-01-01T00:00:00Z'', meta_updatedAt = ''2024-01-01T00:00:00Z'',
      meta_stage = Idea, meta_schemaVersion = 1\<rparr>"

definition example_step :: "int \<Rightarrow> string \<Rightarrow> PlanStep" where
  "example_step n content =
     \<lparr>step_number = n, step_code = ''code'', step_title = ''Title'', step_description = None,
      step_status = pending, step_startedAt = None, step_completedAt = None,
      step_content = content\<rparr>"

definition example_uuids :: "nat \<Rightarrow> string" where
  "example_uuids n = ''uuid-'' @ String_of (int n)"

definition example_store :: SqliteStorageProvider where
  "example_store =
     snd (addStep (example_step 2 ''JWT jwt Jwt jwT JWT'')
       (snd (addStep (example_step 1 ''use jwt'')
         (snd (initialize example_metadata (new_provider ''/plans/demo.plan'' example_uuids))))))"



definition example_file :: "string \<Rightarrow> string \<Rightarrow> PlanFile" where
  "example_file filename content =
     \<lparr>file_type = ''idea'', file_filename = filename, file_content = content,
      file_createdAt = ''2024-01-01T00:00:00Z'', file_updatedAt = ''2024-01-02T00:00:00Z''\<rparr>"

definition example_event :: "string \<Rightarrow> TimelineEvent" where
  "example_event ident =
     \<lparr>event_id = ident, event_timestamp = ''2024-01-01T00:00:00Z'',
      event_type = ''plan_created'', event_data = ''{}''\<rparr>"

definition example_evidence :: "string \<Rightarrow> string \<Rightarrow> EvidenceRecord" where
  "example_evidence ident description =
     \<lparr>evidence_id = ident, evidence_description = description, evidence_source = None,
      evidence_sourceUrl = None, evidence_gatheringMethod = None, evidence_content = None,
      evidence_filePath = None, evidence_relevanceScore = None,
      evidence_originalQuery = None, evidence_summary = None,
      evidence_createdAt = ''2024-01-01T00:00:00Z''\<rparr>"

definition example_feedback :: "string \<Rightarrow> string \<Rightarrow> FeedbackRecord" where
  "example_feedback ident content =
     \<lparr>feedback_id = ident, feedback_title = None, feedback_platform = None,
      feedback_content = content, feedback_participants = None,
      feedback_createdAt = ''2024-01-01T00:00:00Z''\<rparr>"

text \<open>A provider whose reads all succeed, with one item of each kind.\<close>

definition example_reads :: provider_reads where
  "example_reads =
     \<lparr>read_metadata = succeeded_with example_metadata,
      read_steps = succeeded_with [example_step 1 ''first step''],
      read_files = succeeded_with [example_file ''IDEA.md'' ''an idea''],
      read_timeline = succeeded_with [example_event ''event-1''],
      read_evidence = succeeded_with [example_evidence ''evidence-1'' ''findings''],
      read_feedback = succeeded_with [example_feedback ''feedback-1'' ''looks good'']\<rparr>"

text \<open>A provider that holds the same plan and nothing else.\<close>

definition example_empty_reads :: provider_reads where
  "example_empty_reads =
     \<lparr>read_metadata = succeeded_with example_metadata,
      read_steps = succeeded_with [], read_files = succeeded_with [],
      read_timeline = succeeded_with [], read_evidence = succeeded_with [],
      read_feedback = succeeded_with []\<rparr>"


text \<open>
  A disk with a plan directory that holds only a summary, a database file, a file with
  the database extension and other content, such a file that cannot be read or removed,
  and the database file of the example store, which the system refuses to remove (it lies
  in a directory without write permission).
\<close>

definition example_disk :: file_system where
  "example_disk =
     \<lparr>entry_at =
        (\<lambda>p. if p = ''/plans/a'' then Some Directory
              else if p = ''/plans/a/SUMMARY.md'' then Some (RegularFile (Some ''# Summary''))
              else if p = ''/plans/b.plan''
                then Some (RegularFile (Some (SQLITE_HEADER @ ''pages'')))
              else if p = ''/plans/c.plan'' then Some (RegularFile (Some ''not a database''))
              else if p = ''/plans/locked.plan'' then Some (RegularFile None)
              else if p = ''/plans/empty'' then Some Directory
              else if p = ''/plans/demo.plan''
                then Some (RegularFile (Some (SQLITE_HEADER @ ''demo'')))
              else None),
      removal_refused = (\<lambda>p. p = ''/plans/locked.plan'' \<or> p = ''/plans/demo.plan'')\<rparr>"

text \<open>Patches that supply no field, and one that completes a step.\<close>

definition empty_metadata_patch :: PartialPlanMetadata where
  "empty_metadata_patch =
     \<lparr>pm_id = None, pm_name = None, pm_description = None, pm_createdAt = None,
      pm_updatedAt = None, pm_stage = None, pm_schemaVersion = None\<rparr>"

definition empty_step_patch :: PartialPlanStep where
  "empty_step_patch =
     \<lparr>ps_number = None, ps_code = None, ps_title = None, ps_description = None,
      ps_status = None, ps_startedAt = None, ps_completedAt = None, ps_content = None\<rparr>"

definition completing_patch :: PartialPlanStep where
  "completing_patch =
     empty_step_patch\<lparr>ps_status := Some completed,
                       ps_completedAt := Some ''2024-02-01T00:00:00Z''\<rparr>"

text \<open>The example store after a first \<open>saveFile\<close>, and a later version of that file.\<close>

definition example_store_with_file :: SqliteStorageProvider where
  "example_store_with_file = snd (saveFile (example_file ''IDEA.md'' ''an idea'') example_store)"

definition example_file_rewritten :: PlanFile where
  "example_file_rewritten =
     \<lparr>file_type = ''idea'', file_filename = ''IDEA.md'', file_content = ''a better idea'',
      file_createdAt = ''2024-03-01T00:00:00Z'', file_updatedAt = ''2024-03-01T00:00:00Z''\<rparr>"

text \<open>
  The store with a file, a checkpoint of that state, and then changes to a step, to the
  name and the stage and to the file.
\<close>

definition example_checkpoint :: Checkpoint where
  "example_checkpoint =
     \<lparr>checkpoint_name = ''before'', checkpoint_message = ''before the changes'',
      checkpoint_createdAt = ''2024-01-05T00:00:00Z'',
      checkpoint_snapshot =
        (case createSnapshot example_store_with_file of
           Inr snapshot \<Rightarrow> snapshot
         | Inl e \<Rightarrow> \<lparr>snapshot_metadata = example_metadata, snapshot_steps = [],
                      snapshot_files = []\<rparr>)\<rparr>"

definition example_store_changed :: SqliteStorageProvider where
  "example_store_changed =
     snd (saveFile example_file_rewritten
       (snd (updateMetadata (empty_metadata_patch\<lparr>pm_name := Some ''Renamed'',
                                                  pm_stage := Some Built\<rparr>)
               ''2024-02-02T00:00:00Z''
         (snd (updateStep 1 completing_patch
           (snd (createCheckpoint example_checkpoint example_store_with_file)))))))"

text \<open>
  The changed store once more, after a third step has been added and the file removed.
\<close>

definition example_store_diverged :: SqliteStorageProvider where
  "example_store_diverged =
     snd (deleteFile ''idea'' ''IDEA.md''
       (snd (addStep (example_step 3 ''added later'') example_store_changed)))"




section \<open>The counting loop and the search\<close>

lemma index_in_None:
  "q \<noteq> [] \<Longrightarrow> index_in q xs k = None \<Longrightarrow> occurrence_count q xs = 0"
  by (induction xs arbitrary: k) (auto split: if_splits)

lemma index_in_Some:
  "q \<noteq> [] \<Longrightarrow> index_in q xs k = Some i \<Longrightarrow>
     k \<le> i \<and> (i - k) + length q \<le> length xs
     \<and> occurrence_count q xs = Suc (occurrence_count q (drop (i - k + length q) xs))"
proof (induction xs arbitrary: k)
  case Nil
  then show ?case by simp
next
  case (Cons x xs)
  show ?case
  proof (cases "prefix q (x # xs)")
    case True
    with Cons.prems have "i = k" by simp
    moreover from True have "length q \<le> length (x # xs)" by (rule prefix_length_le)
    ultimately show ?thesis using True Cons.prems(1) by simp
  next
    case False
    with Cons.prems have step: "index_in q xs (Suc k) = Some i" by simp
    from Cons.IH[OF Cons.prems(1) step]
    have ih: "Suc k \<le> i" "(i - Suc k) + length q \<le> length xs"
      "occurrence_count q xs = Suc (occurrence_count q (drop (i - Suc k + length q) xs))"
      by auto
    from ih(1) have eq: "i - k + length q = Suc (i - Suc k + length q)" by simp
    show ?thesis using ih False eq by simp
  qed
qed

lemma count_loop_eq:
  "q \<noteq> [] \<Longrightarrow> count_loop c q cnt pos = Some (cnt + occurrence_count q (drop pos c))"
proof (induction "length c - pos" arbitrary: cnt pos rule: less_induct)
  case less
  let ?start = "min pos (length c)"
  have dropeq: "drop ?start c = drop pos c" by (simp add: min_def)
  show ?case
  proof (cases "indexOf c q pos")
    case None
    then have "index_in q (drop pos c) ?start = None"
      by (simp add: indexOf_def Let_def dropeq)
    from index_in_None[OF less.prems this] None show ?thesis
      by (subst count_loop.simps) simp
  next
    case (Some i)
    then have ii: "index_in q (drop pos c) ?start = Some i"
      by (simp add: indexOf_def Let_def dropeq)
    from index_in_Some[OF less.prems ii]
    have f: "?start \<le> i" "(i - ?start) + length q \<le> length (drop pos c)"
      "occurrence_count q (drop pos c)
         = Suc (occurrence_count q (drop (i - ?start + length q) (drop pos c)))"
      by auto
    from less.prems have lq: "0 < length q" by simp
    from f(2) lq have posl: "pos < length c" by (cases "pos < length c") auto
    then have st: "?start = pos" by simp
    have dd: "drop (i - ?start + length q) (drop pos c) = drop (i + length q) c"
      using f(1) st by (simp add: add.commute add.left_commute)
    have dec: "length c - (i + length q) < length c - pos"
      using f(1) st lq posl by arith
    from less.hyps[OF dec less.prems, of "cnt + 1"]
    have "count_loop c q (cnt + 1) (i + length q)
            = Some (cnt + 1 + occurrence_count q (drop (i + length q) c))" .
    with Some f(3) dd show ?thesis
      by (subst count_loop.simps) simp
  qed
qed

lemma occurrence_count_bound: "occurrence_count q s * length q \<le> length s"
proof (induction q s rule: occurrence_count.induct)
  case (1 q)
  then show ?case by simp
next
  case (2 q x xs)
  show ?case
  proof (cases "q \<noteq> [] \<and> prefix q (x # xs)")
    case True
    then have le: "length q \<le> length (x # xs)" by (auto dest: prefix_length_le)
    from 2(1)[OF True] have "occurrence_count q (drop (length q) (x # xs)) * length q
        \<le> length (x # xs) - length q" by simp
    with True le show ?thesis by (simp del: drop.simps length_drop)
  next
    case False
    with 2(2)[OF False] show ?thesis by auto
  qed
qed



lemma toLowerCase_Nil_iff: "toLowerCase q = [] \<longleftrightarrow> q = []"
  by (simp add: toLowerCase_def)

lemma length_toLowerCase: "length (toLowerCase s) = length s"
  by (simp add: toLowerCase_def)

lemma calculateScore_nonempty:
  "query \<noteq> [] \<Longrightarrow> calculateScore content query = Some (saturated_score content query)"
  by (simp add: calculateScore_def saturated_score_def count_loop_eq toLowerCase_Nil_iff)


lemma those_map_Some:
  "(\<And>x. x \<in> set xs \<Longrightarrow> f x = Some (g x)) \<Longrightarrow> those (map f xs) = Some (map g xs)"
  by (induction xs) auto


lemma pool_eq:
  "step_hits query (rows_of_plan pid (plan_steps d))
     @ file_hits query (rows_of_plan pid (plan_files d))
     @ evidence_hits query (rows_of_plan pid (evidence_records d))
   = map (\<lambda>m. case m of (type, ident, content) \<Rightarrow> search_hit type ident content query)
       (matched_texts query pid d)"
  by (simp add: step_hits_def file_hits_def evidence_hits_def matched_texts_def comp_def)

lemma search_hit_nonempty:
  "query \<noteq> [] \<Longrightarrow>
     (case m of (type, ident, content) \<Rightarrow> search_hit type ident content query)
       = Some (expected_hit query m)"
  by (cases m) (simp add: search_hit_def expected_hit_def calculateScore_nonempty)






lemma search_returns:
  assumes "query \<noteq> []"
  shows "\<exists>outcome. search query p = Some outcome"
proof (cases "getPlanId p")
  case (Inl e)
  then show ?thesis by (simp add: search_def)
next
  case (Inr a)
  obtain pid p1 where a: "a = (pid, p1)" by (cases a)
  have "those (map (\<lambda>m. case m of (type, ident, content) \<Rightarrow>
                     search_hit type ident content query) (matched_texts query pid (db p1)))
          = Some (map (expected_hit query) (matched_texts query pid (db p1)))"
    by (rule those_map_Some) (rule search_hit_nonempty[OF assms])
  with Inr a show ?thesis
    by (cases "prepare ''plan_steps'' (db p1)") (simp_all add: search_def pool_eq)
qed

lemma getPlanId_db: "getPlanId p = Inr (pid, p') \<Longrightarrow> db p' = db p"
  by (auto simp: getPlanId_def split: option.splits sum.splits list.splits)

text \<open>
  C9.  For a query that is not empty the search returns: the counting loop of
  \<open>calculateScore\<close> ends on every content, and since each round counts one occurrence
  and moves the position past it, the rounds it makes (\<open>n\<close>, one per counted occurrence)
  times the length of the query fit into the content, so there are at most as many rounds
  as the content has characters.
\<close>

theorem search_terminates_for_nonempty_query:
  assumes "query \<noteq> []"
  shows "(\<exists>outcome. search query p = Some outcome)
         \<and> (\<exists>n. count_loop (toLowerCase content) (toLowerCase query) 0 0 = Some n
                \<and> n * length query \<le> length content
                \<and> n \<le> length content)"
proof -
  let ?q = "toLowerCase query" and ?c = "toLowerCase content"
  from assms have ne: "?q \<noteq> []" by (simp add: toLowerCase_Nil_iff)
  have run: "count_loop ?c ?q 0 0 = Some (occurrence_count ?q ?c)"
    using count_loop_eq[OF ne, of ?c 0 0] by simp
  have b: "occurrence_count ?q ?c * length query \<le> length content"
    using occurrence_count_bound[of ?q ?c] by (simp add: length_toLowerCase)
  from assms obtain k where "length query = Suc k" by (cases query) simp_all
  then have "occurrence_count ?q ?c \<le> occurrence_count ?q ?c * length query" by simp
  with b have "occurrence_count ?q ?c \<le> length content" by linarith
  with run b search_returns[OF assms] show ?thesis by blast
qed

theorem search_terminates_witness:
  "''JWT'' \<noteq> []
   \<and> (\<exists>outcome. search ''JWT'' example_store = Some outcome)
   \<and> count_loop (toLowerCase ''JWT jwt Jwt jwT JWT'') (toLowerCase ''JWT'') 0 0 = Some 5
   \<and> 5 * length ''JWT'' \<le> length ''JWT jwt Jwt jwT JWT''"
proof -
  have ne: "''JWT'' \<noteq> []" by simp
  have run: "count_loop (toLowerCase ''JWT jwt Jwt jwT JWT'') (toLowerCase ''JWT'') 0 0 = Some 5"
    by code_simp
  from search_terminates_for_nonempty_query[OF ne, of example_store "''JWT jwt Jwt jwT JWT''"] run
  show ?thesis by simp
qed





section \<open>The validator\<close>

lemma foldl_grows:
  assumes "\<And>acc x. set acc \<subseteq> set (f acc x)"
  shows "set acc \<subseteq> set (foldl f acc xs)"
proof (induction xs arbitrary: acc)
  case Nil
  then show ?case by simp
next
  case (Cons x xs)
  have "set acc \<subseteq> set (f acc x)" by (rule assms)
  also have "\<dots> \<subseteq> set (foldl f (f acc x) xs)" by (rule Cons.IH)
  finally show ?case by simp
qed

lemma foldl_records:
  assumes grows: "\<And>acc x. set acc \<subseteq> set (f acc x)"
    and x: "x \<in> set xs" and e: "\<And>acc. e \<in> set (f acc x)"
  shows "e \<in> set (foldl f acc xs)"
  using x
proof (induction xs arbitrary: acc)
  case Nil
  then show ?case by simp
next
  case (Cons y ys)
  show ?case
  proof (cases "x = y")
    case True
    have "e \<in> set (f acc y)" using e True by simp
    with foldl_grows[of f "f acc y" ys, OF grows] show ?thesis by auto
  next
    case False
    with Cons.prems have "x \<in> set ys" by simp
    from Cons.IH[OF this] show ?thesis by simp
  qed
qed

lemma check_source_step_grows: "set acc \<subseteq> set (check_source_step ts acc s)"
  by (auto simp: check_source_step_def Let_def split: option.splits)

lemma check_target_step_grows: "set acc \<subseteq> set (check_target_step ss acc t)"
  by (auto simp: check_target_step_def split: option.splits)

lemma check_source_file_grows: "set acc \<subseteq> set (check_source_file ts acc s)"
  by (auto simp: check_source_file_def Let_def split: option.splits)

lemma check_source_evidence_grows: "set acc \<subseteq> set (check_source_evidence ts acc s)"
  by (auto simp: check_source_evidence_def split: option.splits)

lemma check_source_feedback_grows: "set acc \<subseteq> set (check_source_feedback ts acc s)"
  by (auto simp: check_source_feedback_def split: option.splits)

lemma check_source_event_grows: "set acc \<subseteq> set (check_source_event ts acc s)"
  by (auto simp: check_source_event_def split: option.splits)

lemma validateSteps_grows: "set acc \<subseteq> set (snd (validateSteps s t acc))"
proof -
  have "set acc \<subseteq> set (foldl (check_source_step (data_or_empty t)) acc (data_or_empty s))"
    by (rule foldl_grows) (rule check_source_step_grows)
  also have "\<dots> \<subseteq> set (foldl (check_target_step (data_or_empty s))
                 (foldl (check_source_step (data_or_empty t)) acc (data_or_empty s))
                 (data_or_empty t))"
    by (rule foldl_grows) (rule check_target_step_grows)
  finally show ?thesis by (simp add: validateSteps_def Let_def)
qed

lemma validateFiles_grows: "set acc \<subseteq> set (snd (validateFiles s t acc))"
  using foldl_grows[of "check_source_file (data_or_empty t)" acc "data_or_empty s",
      OF check_source_file_grows]
  by (simp add: validateFiles_def Let_def)

lemma validateEvidence_grows: "set acc \<subseteq> set (snd (validateEvidence s t acc))"
  using foldl_grows[of "check_source_evidence (data_or_empty t)" acc "data_or_empty s",
      OF check_source_evidence_grows]
  by (simp add: validateEvidence_def Let_def)

lemma validateFeedback_grows: "set acc \<subseteq> set (snd (validateFeedback s t acc))"
  using foldl_grows[of "check_source_feedback (data_or_empty t)" acc "data_or_empty s",
      OF check_source_feedback_grows]
  by (simp add: validateFeedback_def Let_def)

lemma validateTimeline_errors: "fst (snd (validateTimeline s t acc w)) = acc"
  by (simp add: validateTimeline_def Let_def)

text \<open>The errors of a whole validation, phase by phase.\<close>

lemma vr_errors_validate:
  "vr_errors (validate source target) =
     snd (validateFeedback (read_feedback source) (read_feedback target)
       (snd (validateEvidence (read_evidence source) (read_evidence target)
         (snd (validateFiles (read_files source) (read_files target)
           (snd (validateSteps (read_steps source) (read_steps target)
             (validateMetadata (read_metadata source) (read_metadata target) []))))))))"
  by (simp add: validate_def Let_def split_def validateTimeline_errors)

lemma vr_warnings_validate:
  "vr_warnings (validate source target) =
     snd (snd (validateTimeline (read_timeline source) (read_timeline target) [] []))"
  by (simp add: validate_def Let_def split_def validateTimeline_def)

lemma vr_valid_validate:
  "vr_valid (validate source target) \<longleftrightarrow> vr_errors (validate source target) = []"
  by (simp add: validate_def Let_def split_def)

lemma after_steps:
  "e \<in> set (snd (validateSteps (read_steps source) (read_steps target)
             (validateMetadata (read_metadata source) (read_metadata target) [])))
   \<Longrightarrow> e \<in> set (vr_errors (validate source target))"
  unfolding vr_errors_validate
  using validateFiles_grows validateEvidence_grows validateFeedback_grows
  by (meson subsetD)

lemma after_files:
  "e \<in> set (snd (validateFiles (read_files source) (read_files target) acc))
   \<Longrightarrow> acc = snd (validateSteps (read_steps source) (read_steps target)
             (validateMetadata (read_metadata source) (read_metadata target) []))
   \<Longrightarrow> e \<in> set (vr_errors (validate source target))"
  unfolding vr_errors_validate
  using validateEvidence_grows validateFeedback_grows
  by (meson subsetD)

lemma after_evidence:
  "e \<in> set (snd (validateEvidence (read_evidence source) (read_evidence target) acc))
   \<Longrightarrow> acc = snd (validateFiles (read_files source) (read_files target)
           (snd (validateSteps (read_steps source) (read_steps target)
             (validateMetadata (read_metadata source) (read_metadata target) []))))
   \<Longrightarrow> e \<in> set (vr_errors (validate source target))"
  unfolding vr_errors_validate
  using validateFeedback_grows
  by (meson subsetD)

lemma missing_step_recorded:
  assumes r: "\<not> unreadable (read_steps source)"
    and s: "s \<in> set (data_or_empty (read_steps source))"
    and miss: "\<forall>t \<in> set (data_or_empty (read_steps target)). step_number t \<noteq> step_number s"
  shows "\<exists>e \<in> set (vr_errors (validate source target)).
           err_type e = missing_step \<and> err_expected e = StepValue s \<and> err_actual e = Null"
proof -
  let ?ts = "data_or_empty (read_steps target)"
  let ?e = "\<lparr>err_type = missing_step,
             err_path = ''steps['' @ String_of (step_number s) @ '']'',
             err_expected = StepValue s, err_actual = Null,
             err_message = ''Step '' @ String_of (step_number s) @ '' is missing in target''\<rparr>"
  from miss have none: "find (\<lambda>t. step_number t = step_number s) ?ts = None"
    by (simp add: find_None_iff)
  have rec: "\<And>acc. ?e \<in> set (check_source_step ?ts acc s)"
    by (simp add: check_source_step_def none)
  have "?e \<in> set (foldl (check_source_step ?ts) acc (data_or_empty (read_steps source)))" for acc
    by (rule foldl_records[where f = "check_source_step ?ts", OF check_source_step_grows s rec])
  then have "?e \<in> set (snd (validateSteps (read_steps source) (read_steps target) acc))" for acc
    using r foldl_grows[of "check_target_step (data_or_empty (read_steps source))"
        "foldl (check_source_step ?ts) acc (data_or_empty (read_steps source))" ?ts,
        OF check_target_step_grows]
    by (auto simp: validateSteps_def Let_def)
  then have "?e \<in> set (vr_errors (validate source target))" by (rule after_steps)
  then show ?thesis by (intro bexI[of _ ?e]) simp_all
qed

lemma missing_file_recorded:
  assumes r: "\<not> unreadable (read_files source)"
    and s: "s \<in> set (data_or_empty (read_files source))"
    and miss: "\<forall>t \<in> set (data_or_empty (read_files target)).
                 \<not> (file_type t = file_type s \<and> file_filename t = file_filename s)"
  shows "\<exists>e \<in> set (vr_errors (validate source target)).
           err_type e = missing_file \<and> err_expected e = FileValue s \<and> err_actual e = Null"
proof -
  let ?ts = "data_or_empty (read_files target)"
  let ?e = "\<lparr>err_type = missing_file,
             err_path = ''files['' @ file_type s @ ''/'' @ file_filename s @ '']'',
             err_expected = FileValue s, err_actual = Null,
             err_message = ''File '' @ file_filename s @ '' ('' @ file_type s
                            @ '') is missing in target''\<rparr>"
  from miss have none:
    "find (\<lambda>f. file_type f = file_type s \<and> file_filename f = file_filename s) ?ts = None"
    by (simp add: find_None_iff)
  have rec: "\<And>acc. ?e \<in> set (check_source_file ?ts acc s)"
    by (simp add: check_source_file_def none)
  have "?e \<in> set (foldl (check_source_file ?ts) acc (data_or_empty (read_files source)))" for acc
    by (rule foldl_records[where f = "check_source_file ?ts", OF check_source_file_grows s rec])
  then have "?e \<in> set (snd (validateFiles (read_files source) (read_files target) acc))" for acc
    using r by (simp add: validateFiles_def Let_def)
  then have "?e \<in> set (vr_errors (validate source target))" by (rule after_files) simp
  then show ?thesis by (intro bexI[of _ ?e]) simp_all
qed

lemma missing_evidence_recorded:
  assumes r: "\<not> unreadable (read_evidence source)"
    and s: "s \<in> set (data_or_empty (read_evidence source))"
    and miss: "\<forall>t \<in> set (data_or_empty (read_evidence target)).
                 evidence_description t \<noteq> evidence_description s"
  shows "\<exists>e \<in> set (vr_errors (validate source target)).
           err_expected e = EvidenceValue s \<and> err_actual e = Null"
proof -
  let ?ts = "data_or_empty (read_evidence target)"
  let ?e = "\<lparr>err_type = missing_file,
             err_path = ''evidence['' @ evidence_id s @ '']'',
             err_expected = EvidenceValue s, err_actual = Null,
             err_message = ''Evidence \"'' @ evidence_description s
                            @ ''\" is missing in target''\<rparr>"
  from miss have none:
    "find (\<lambda>e. evidence_description e = evidence_description s) ?ts = None"
    by (simp add: find_None_iff)
  have rec: "\<And>acc. ?e \<in> set (check_source_evidence ?ts acc s)"
    by (simp add: check_source_evidence_def none)
  have "?e \<in> set (foldl (check_source_evidence ?ts) acc (data_or_empty (read_evidence source)))"
    for acc
    by (rule foldl_records[where f = "check_source_evidence ?ts", OF check_source_evidence_grows s rec])
  then have "?e \<in> set (snd (validateEvidence (read_evidence source) (read_evidence target) acc))"
    for acc
    using r by (simp add: validateEvidence_def Let_def)
  then have "?e \<in> set (vr_errors (validate source target))" by (rule after_evidence) simp
  then show ?thesis by (intro bexI[of _ ?e]) simp_all
qed

lemma missing_feedback_recorded:
  assumes r: "\<not> unreadable (read_feedback source)"
    and s: "s \<in> set (data_or_empty (read_feedback source))"
    and miss: "\<forall>t \<in> set (data_or_empty (read_feedback target)).
                 feedback_content t \<noteq> feedback_content s"
  shows "\<exists>e \<in> set (vr_errors (validate source target)).
           err_expected e = FeedbackValue s \<and> err_actual e = Null"
proof -
  let ?ts = "data_or_empty (read_feedback target)"
  let ?e = "\<lparr>err_type = missing_file,
             err_path = ''feedback['' @ feedback_id s @ '']'',
             err_expected = FeedbackValue s, err_actual = Null,
             err_message = ''Feedback \"'' @ title_or_id s @ ''\" is missing in target''\<rparr>"
  from miss have none: "find (\<lambda>f. feedback_content f = feedback_content s) ?ts = None"
    by (simp add: find_None_iff)
  have rec: "\<And>acc. ?e \<in> set (check_source_feedback ?ts acc s)"
    by (simp add: check_source_feedback_def none)
  have "?e \<in> set (foldl (check_source_feedback ?ts) acc (data_or_empty (read_feedback source)))"
    for acc
    by (rule foldl_records[where f = "check_source_feedback ?ts", OF check_source_feedback_grows s rec])
  then have "?e \<in> set (snd (validateFeedback (read_feedback source) (read_feedback target) acc))"
    for acc
    using r by (simp add: validateFeedback_def Let_def)
  then have "?e \<in> set (vr_errors (validate source target))"
    by (simp add: vr_errors_validate)
  then show ?thesis by (intro bexI[of _ ?e]) simp_all
qed

lemma unmatched_event_warned:
  assumes r: "\<not> unreadable (read_timeline source)"
    and s: "s \<in> set (data_or_empty (read_timeline source))"
    and miss: "\<forall>t \<in> set (data_or_empty (read_timeline target)).
                 \<not> (event_type t = event_type s \<and> event_timestamp t = event_timestamp s)"
  shows "''Timeline event '' @ event_type s @ '' at '' @ event_timestamp s
           @ '' not found in target'' \<in> set (vr_warnings (validate source target))"
proof -
  let ?ts = "data_or_empty (read_timeline target)"
  let ?w = "''Timeline event '' @ event_type s @ '' at '' @ event_timestamp s
              @ '' not found in target''"
  from miss have none:
    "find (\<lambda>e. event_type e = event_type s \<and> event_timestamp e = event_timestamp s) ?ts = None"
    by (simp add: find_None_iff)
  have rec: "\<And>acc. ?w \<in> set (check_source_event ?ts acc s)"
    by (simp add: check_source_event_def none)
  have "?w \<in> set (foldl (check_source_event ?ts) [] (data_or_empty (read_timeline source)))"
    by (rule foldl_records[where f = "check_source_event ?ts", OF check_source_event_grows s rec])
  with r show ?thesis by (simp add: vr_warnings_validate validateTimeline_def Let_def)
qed

lemma errors_ignore_timeline:
  "vr_errors (validate (source\<lparr>read_timeline := x\<rparr>) (target\<lparr>read_timeline := y\<rparr>))
     = vr_errors (validate source target)"
  by (simp add: vr_errors_validate)

text \<open>
  C8.  A validation is valid exactly when its list of errors is empty.  What the two
  timeline reads return has no influence on that list: a source event without a target
  event of the same type and timestamp yields a warning and nothing else.  A source step,
  file, evidence record or feedback record without a counterpart in the target yields an
  error, so the validation is not valid.
\<close>

theorem validate_errors_and_warnings:
  "(vr_valid (validate source target) \<longleftrightarrow> vr_errors (validate source target) = [])
   \<and> (\<forall>x y. vr_errors (validate (source\<lparr>read_timeline := x\<rparr>) (target\<lparr>read_timeline := y\<rparr>))
             = vr_errors (validate source target))
   \<and> (\<forall>ev. \<not> unreadable (read_timeline source)
           \<and> ev \<in> set (data_or_empty (read_timeline source))
           \<and> (\<forall>t \<in> set (data_or_empty (read_timeline target)).
                 \<not> (event_type t = event_type ev \<and> event_timestamp t = event_timestamp ev))
         \<longrightarrow> ''Timeline event '' @ event_type ev @ '' at '' @ event_timestamp ev
               @ '' not found in target'' \<in> set (vr_warnings (validate source target)))
   \<and> (\<forall>s. \<not> unreadable (read_steps source)
          \<and> s \<in> set (data_or_empty (read_steps source))
          \<and> (\<forall>t \<in> set (data_or_empty (read_steps target)). step_number t \<noteq> step_number s)
         \<longrightarrow> (\<exists>e \<in> set (vr_errors (validate source target)).
                 err_type e = missing_step \<and> err_expected e = StepValue s)
             \<and> \<not> vr_valid (validate source target))
   \<and> (\<forall>f. \<not> unreadable (read_files source)
          \<and> f \<in> set (data_or_empty (read_files source))
          \<and> (\<forall>t \<in> set (data_or_empty (read_files target)).
                \<not> (file_type t = file_type f \<and> file_filename t = file_filename f))
         \<longrightarrow> (\<exists>e \<in> set (vr_errors (validate source target)).
                 err_type e = missing_file \<and> err_expected e = FileValue f)
             \<and> \<not> vr_valid (validate source target))
   \<and> (\<forall>r. \<not> unreadable (read_evidence source)
          \<and> r \<in> set (data_or_empty (read_evidence source))
          \<and> (\<forall>t \<in> set (data_or_empty (read_evidence target)).
                evidence_description t \<noteq> evidence_description r)
         \<longrightarrow> (\<exists>e \<in> set (vr_errors (validate source target)). err_expected e = EvidenceValue r)
             \<and> \<not> vr_valid (validate source target))
   \<and> (\<forall>r. \<not> unreadable (read_feedback source)
          \<and> r \<in> set (data_or_empty (read_feedback source))
          \<and> (\<forall>t \<in> set (data_or_empty (read_feedback target)).
                feedback_content t \<noteq> feedback_content r)
         \<longrightarrow> (\<exists>e \<in> set (vr_errors (validate source target)). err_expected e = FeedbackValue r)
             \<and> \<not> vr_valid (validate source target))"
proof (intro conjI allI impI)
  show "vr_valid (validate source target) \<longleftrightarrow> vr_errors (validate source target) = []"
    by (rule vr_valid_validate)
next
  fix x y
  show "vr_errors (validate (source\<lparr>read_timeline := x\<rparr>) (target\<lparr>read_timeline := y\<rparr>))
          = vr_errors (validate source target)"
    by (rule errors_ignore_timeline)
next
  fix ev
  assume "\<not> unreadable (read_timeline source)
           \<and> ev \<in> set (data_or_empty (read_timeline source))
           \<and> (\<forall>t \<in> set (data_or_empty (read_timeline target)).
                 \<not> (event_type t = event_type ev \<and> event_timestamp t = event_timestamp ev))"
  then show "''Timeline event '' @ event_type ev @ '' at '' @ event_timestamp ev
               @ '' not found in target'' \<in> set (vr_warnings (validate source target))"
    using unmatched_event_warned[of source ev target] by blast
next
  fix s
  assume h: "\<not> unreadable (read_steps source)
          \<and> s \<in> set (data_or_empty (read_steps source))
          \<and> (\<forall>t \<in> set (data_or_empty (read_steps target)). step_number t \<noteq> step_number s)"
  then obtain e where e: "e \<in> set (vr_errors (validate source target))"
    "err_type e = missing_step" "err_expected e = StepValue s"
    using missing_step_recorded[of source s target] by blast
  then show "\<exists>e \<in> set (vr_errors (validate source target)).
                 err_type e = missing_step \<and> err_expected e = StepValue s" by blast
  from e(1) show "\<not> vr_valid (validate source target)"
    by (auto simp: vr_valid_validate)
next
  fix f
  assume h: "\<not> unreadable (read_files source)
          \<and> f \<in> set (data_or_empty (read_files source))
          \<and> (\<forall>t \<in> set (data_or_empty (read_files target)).
                \<not> (file_type t = file_type f \<and> file_filename t = file_filename f))"
  then obtain e where e: "e \<in> set (vr_errors (validate source target))"
    "err_type e = missing_file" "err_expected e = FileValue f"
    using missing_file_recorded[of source f target] by blast
  then show "\<exists>e \<in> set (vr_errors (validate source target)).
                 err_type e = missing_file \<and> err_expected e = FileValue f" by blast
  from e(1) show "\<not> vr_valid (validate source target)"
    by (auto simp: vr_valid_validate)
next
  fix r
  assume h: "\<not> unreadable (read_evidence source)
          \<and> r \<in> set (data_or_empty (read_evidence source))
          \<and> (\<forall>t \<in> set (data_or_empty (read_evidence target)).
                evidence_description t \<noteq> evidence_description r)"
  then obtain e where e: "e \<in> set (vr_errors (validate source target))"
    "err_expected e = EvidenceValue r"
    using missing_evidence_recorded[of source r target] by blast
  then show "\<exists>e \<in> set (vr_errors (validate source target)). err_expected e = EvidenceValue r"
    by blast
  from e(1) show "\<not> vr_valid (validate source target)"
    by (auto simp: vr_valid_validate)
next
  fix r
  assume h: "\<not> unreadable (read_feedback source)
          \<and> r \<in> set (data_or_empty (read_feedback source))
          \<and> (\<forall>t \<in> set (data_or_empty (read_feedback target)).
                feedback_content t \<noteq> feedback_content r)"
  then obtain e where e: "e \<in> set (vr_errors (validate source target))"
    "err_expected e = FeedbackValue r"
    using missing_feedback_recorded[of source r target] by blast
  then show "\<exists>e \<in> set (vr_errors (validate source target)). err_expected e = FeedbackValue r"
    by blast
  from e(1) show "\<not> vr_valid (validate source target)"
    by (auto simp: vr_valid_validate)
qed

theorem validate_errors_and_warnings_witness:
  "\<not> unreadable (read_steps example_reads)
   \<and> example_step 1 ''first step'' \<in> set (data_or_empty (read_steps example_reads))
   \<and> (\<exists>e \<in> set (vr_errors (validate example_reads example_empty_reads)).
         err_type e = missing_step \<and> err_expected e = StepValue (example_step 1 ''first step''))
   \<and> \<not> vr_valid (validate example_reads example_empty_reads)
   \<and> ''Timeline event plan_created at 2024-01-01T00:00:00Z not found in target''
        \<in> set (vr_warnings (validate example_reads example_empty_reads))
   \<and> missing_event \<notin> set (map err_type (vr_errors (validate example_reads example_empty_reads)))"
proof -
  have r: "\<not> unreadable (read_steps example_reads)"
    "\<not> unreadable (read_timeline example_reads)"
    by (simp_all add: example_reads_def unreadable_def succeeded_with_def)
  have m: "example_step 1 ''first step'' \<in> set (data_or_empty (read_steps example_reads))"
    "example_event ''event-1'' \<in> set (data_or_empty (read_timeline example_reads))"
    by (simp_all add: example_reads_def data_or_empty_def succeeded_with_def)
  have n: "\<forall>t \<in> set (data_or_empty (read_steps example_empty_reads)).
             step_number t \<noteq> step_number (example_step 1 ''first step'')"
    "\<forall>t \<in> set (data_or_empty (read_timeline example_empty_reads)).
        \<not> (event_type t = event_type (example_event ''event-1'')
           \<and> event_timestamp t = event_timestamp (example_event ''event-1''))"
    by (simp_all add: example_empty_reads_def data_or_empty_def succeeded_with_def)
  have t: "''Timeline event '' @ event_type (example_event ''event-1'') @ '' at ''
             @ event_timestamp (example_event ''event-1'') @ '' not found in target''
           = ''Timeline event plan_created at 2024-01-01T00:00:00Z not found in target''"
    by (simp add: example_event_def)
  have k: "missing_event \<notin> set (map err_type (vr_errors (validate example_reads example_empty_reads)))"
    by code_simp
  from validate_errors_and_warnings[of example_reads example_empty_reads] r m n t k
  show ?thesis by metis
qed



section \<open>Format detection\<close>

lemma length_SQLITE_HEADER: "length SQLITE_HEADER = 16"
  by (simp add: SQLITE_HEADER_def)

lemma hasSqliteHeader_iff:
  "hasSqliteHeader fs p \<longleftrightarrow>
     (\<exists>bytes. entry_at fs p = Some (RegularFile (Some bytes)) \<and> take 16 bytes = SQLITE_HEADER)"
proof
  assume "hasSqliteHeader fs p"
  then show "\<exists>bytes. entry_at fs p = Some (RegularFile (Some bytes))
               \<and> take 16 bytes = SQLITE_HEADER"
    by (auto simp: hasSqliteHeader_def length_SQLITE_HEADER
        split: option.splits fs_entry.splits if_splits)
next
  assume "\<exists>bytes. entry_at fs p = Some (RegularFile (Some bytes))
            \<and> take 16 bytes = SQLITE_HEADER"
  then obtain bytes where e: "entry_at fs p = Some (RegularFile (Some bytes))"
    and t: "take 16 bytes = SQLITE_HEADER" by blast
  from t have "length (take 16 bytes) = 16" by (simp add: length_SQLITE_HEADER)
  then have "16 \<le> length bytes" by simp
  with e t show "hasSqliteHeader fs p"
    by (simp add: hasSqliteHeader_def length_SQLITE_HEADER)
qed

text \<open>
  C7.  A path that names nothing is \<open>unknown\<close>.  A directory is a \<open>directory\<close> plan exactly
  when it has an entry named like one of the markers or a subdirectory \<open>plan\<close>, and is
  \<open>unknown\<close> otherwise.  A regular file is \<open>sqlite\<close> exactly when the first 16 bytes read
  from it are the magic header, and is \<open>unknown\<close> otherwise, whatever its extension.
\<close>

theorem detectPlanFormat_classifies:
  "(entry_at fs planPath = None \<longrightarrow> detectPlanFormat fs planPath = unknown)
   \<and> (entry_at fs planPath = Some Directory \<longrightarrow>
        (detectPlanFormat fs planPath = detected directory \<longleftrightarrow>
           (\<exists>marker \<in> set DIRECTORY_PLAN_MARKERS. entry_at fs (join planPath marker) \<noteq> None)
           \<or> entry_at fs (join planPath ''plan'') = Some Directory)
        \<and> (detectPlanFormat fs planPath \<noteq> detected directory \<longrightarrow>
             detectPlanFormat fs planPath = unknown))
   \<and> (\<forall>content. entry_at fs planPath = Some (RegularFile content) \<longrightarrow>
        (detectPlanFormat fs planPath = detected sqlite \<longleftrightarrow>
           (\<exists>bytes. content = Some bytes \<and> take 16 bytes = SQLITE_HEADER))
        \<and> (detectPlanFormat fs planPath \<noteq> detected sqlite \<longrightarrow>
             detectPlanFormat fs planPath = unknown))
   \<and> (\<forall>content extension.
        entry_at fs planPath = Some (RegularFile content) \<and> endsWith planPath extension
        \<and> \<not> hasSqliteHeader fs planPath
        \<longrightarrow> detectPlanFormat fs planPath = unknown)"
proof (intro conjI allI impI)
  assume "entry_at fs planPath = None"
  then show "detectPlanFormat fs planPath = unknown" by (simp add: detectPlanFormat_def)
next
  assume d: "entry_at fs planPath = Some Directory"
  then show "detectPlanFormat fs planPath = detected directory \<longleftrightarrow>
           (\<exists>marker \<in> set DIRECTORY_PLAN_MARKERS. entry_at fs (join planPath marker) \<noteq> None)
           \<or> entry_at fs (join planPath ''plan'') = Some Directory"
    by (auto simp: detectPlanFormat_def isDirectory_def existsSync_def list_ex_iff Let_def)
next
  assume d: "entry_at fs planPath = Some Directory"
    and "detectPlanFormat fs planPath \<noteq> detected directory"
  then show "detectPlanFormat fs planPath = unknown"
    by (auto simp: detectPlanFormat_def isDirectory_def Let_def split: if_splits)
next
  fix content
  assume f: "entry_at fs planPath = Some (RegularFile content)"
  then have "detectPlanFormat fs planPath = detected sqlite \<longleftrightarrow> hasSqliteHeader fs planPath"
    by (simp add: detectPlanFormat_def isDirectory_def isFile_def)
  with f show "detectPlanFormat fs planPath = detected sqlite \<longleftrightarrow>
           (\<exists>bytes. content = Some bytes \<and> take 16 bytes = SQLITE_HEADER)"
    by (simp add: hasSqliteHeader_iff)
next
  fix content
  assume "entry_at fs planPath = Some (RegularFile content)"
    and "detectPlanFormat fs planPath \<noteq> detected sqlite"
  then show "detectPlanFormat fs planPath = unknown"
    by (simp add: detectPlanFormat_def isDirectory_def isFile_def split: if_splits)
next
  fix content extension
  assume "entry_at fs planPath = Some (RegularFile content) \<and> endsWith planPath extension
        \<and> \<not> hasSqliteHeader fs planPath"
  then show "detectPlanFormat fs planPath = unknown"
    by (simp add: detectPlanFormat_def isDirectory_def isFile_def)
qed

theorem detectPlanFormat_witness:
  "detectPlanFormat example_disk ''/plans/missing'' = unknown
   \<and> detectPlanFormat example_disk ''/plans/a'' = detected directory
   \<and> detectPlanFormat example_disk ''/plans/empty'' = unknown
   \<and> detectPlanFormat example_disk ''/plans/b.plan'' = detected sqlite
   \<and> detectPlanFormat example_disk ''/plans/c.plan'' = unknown"
proof -
  have e: "entry_at example_disk ''/plans/missing'' = None"
    "entry_at example_disk ''/plans/a'' = Some Directory"
    "entry_at example_disk ''/plans/empty'' = Some Directory"
    "entry_at example_disk ''/plans/b.plan'' = Some (RegularFile (Some (SQLITE_HEADER @ ''pages'')))"
    "entry_at example_disk ''/plans/c.plan'' = Some (RegularFile (Some ''not a database''))"
    by (simp_all add: example_disk_def)
  have a: "\<exists>marker \<in> set DIRECTORY_PLAN_MARKERS.
             entry_at example_disk (join ''/plans/a'' marker) \<noteq> None"
    by (simp add: DIRECTORY_PLAN_MARKERS_def join_def example_disk_def)
  have n: "\<not> ((\<exists>marker \<in> set DIRECTORY_PLAN_MARKERS.
                 entry_at example_disk (join ''/plans/empty'' marker) \<noteq> None)
              \<or> entry_at example_disk (join ''/plans/empty'' ''plan'') = Some Directory)"
    by (simp add: DIRECTORY_PLAN_MARKERS_def join_def example_disk_def)
  have b: "take 16 (SQLITE_HEADER @ ''pages'') = SQLITE_HEADER"
    by (simp add: SQLITE_HEADER_def)
  have c: "take 16 ''not a database'' \<noteq> SQLITE_HEADER"
    by (simp add: SQLITE_HEADER_def)
  from detectPlanFormat_classifies[of example_disk "''/plans/missing''"] e(1)
  have 1: "detectPlanFormat example_disk ''/plans/missing'' = unknown" by blast
  from detectPlanFormat_classifies[of example_disk "''/plans/a''"] e(2) a
  have 2: "detectPlanFormat example_disk ''/plans/a'' = detected directory" by blast
  from detectPlanFormat_classifies[of example_disk "''/plans/empty''"] e(3) n
  have 3: "detectPlanFormat example_disk ''/plans/empty'' = unknown" by blast
  from detectPlanFormat_classifies[of example_disk "''/plans/b.plan''"] e(4) b
  have 4: "detectPlanFormat example_disk ''/plans/b.plan'' = detected sqlite" by blast
  from detectPlanFormat_classifies[of example_disk "''/plans/c.plan''"] e(5) c
  have 5: "detectPlanFormat example_disk ''/plans/c.plan'' = unknown" by auto
  from 1 2 3 4 5 show ?thesis by blast
qed

section \<open>The provider: initialisation, partial updates and file upserts\<close>

lemma fold_max_ge: "m \<le> fold max xs (m::nat)"
  by (induction xs arbitrary: m) (auto intro: order_trans[OF max.cobounded2])

lemma fold_max_mem: "x \<in> set xs \<Longrightarrow> x \<le> fold max xs (m::nat)"
proof (induction xs arbitrary: m)
  case Nil
  then show ?case by simp
next
  case (Cons y ys)
  show ?case
  proof (cases "x = y")
    case True
    have "x \<le> max x m" by simp
    also have "\<dots> \<le> fold max ys (max x m)" by (rule fold_max_ge)
    finally show ?thesis using True by simp
  next
    case False
    with Cons.prems have "x \<in> set ys" by simp
    from Cons.IH[OF this] show ?thesis by simp
  qed
qed

lemma next_plan_id_fresh: "next_plan_id d \<notin> fst ` set (plans d)"
proof
  assume "next_plan_id d \<in> fst ` set (plans d)"
  then have "next_plan_id d \<in> set (map fst (plans d))" by simp
  from fold_max_mem[OF this, of "plans_sequence d"]
  show False by (simp add: next_plan_id_def)
qed

text \<open>
  C5, as the code has it.  \<open>initialize\<close> fails, with the engine's UNIQUE error on
  \<open>plans.code\<close>, exactly when the store already has a plan row whose code is the id of
  the new metadata, and then the rows of \<open>plans\<close> stay as they were.  In every other case,
  an empty store or one whose plans have other codes, it succeeds and appends exactly one
  row, with a fresh id that becomes the provider's plan id.
\<close>

theorem initialize_fails_only_on_same_code:
  "(if \<exists>row \<in> set (plans (db p)). meta_id (snd row) = meta_id metadata
    then \<not> success (fst (initialize metadata p))
         \<and> error (fst (initialize metadata p)) = Some ''UNIQUE constraint failed: plans.code''
         \<and> plans (db (snd (initialize metadata p))) = plans (db p)
    else success (fst (initialize metadata p))
         \<and> (\<exists>row. plans (db (snd (initialize metadata p))) = plans (db p) @ [row]
                  \<and> meta_id (snd row) = meta_id metadata
                  \<and> fst row \<notin> fst ` set (plans (db p))
                  \<and> planId (snd (initialize metadata p)) = Some (fst row)))"
proof (cases "\<exists>row \<in> set (plans (db p)). meta_id (snd row) = meta_id metadata")
  case True
  then show ?thesis
    by (simp add: initialize_def initializeSchema_def failed_def Let_def)
next
  case False
  let ?d = "initializeSchema (db p)"
  have fresh: "next_plan_id ?d \<notin> fst ` set (plans (db p))"
    using next_plan_id_fresh[of ?d] by (simp add: initializeSchema_def)
  from False fresh show ?thesis
    by (simp add: initialize_def initializeSchema_def succeeded_def Let_def)
qed

theorem initialize_witness:
  "(\<exists>row \<in> set (plans (db example_store)). meta_id (snd row) = meta_id example_metadata)
   \<and> \<not> success (fst (initialize example_metadata example_store))
   \<and> plans (db (snd (initialize example_metadata example_store))) = plans (db example_store)
   \<and> success (fst (initialize example_metadata (new_provider ''new.plan'' example_uuids)))
   \<and> length (plans (db (snd (initialize example_metadata
                                  (new_provider ''new.plan'' example_uuids))))) = 1"
proof -
  have t: "\<exists>row \<in> set (plans (db example_store)). meta_id (snd row) = meta_id example_metadata"
    by code_simp
  have f: "\<not> (\<exists>row \<in> set (plans (db (new_provider ''new.plan'' example_uuids))).
                meta_id (snd row) = meta_id example_metadata)"
    by (simp add: new_provider_def empty_database_def)
  have e: "plans (db (new_provider ''new.plan'' example_uuids)) = []"
    by (simp add: new_provider_def empty_database_def)
  from initialize_fails_only_on_same_code[of example_store example_metadata] t
  have 1: "\<not> success (fst (initialize example_metadata example_store))"
    "plans (db (snd (initialize example_metadata example_store))) = plans (db example_store)"
    by simp_all
  from initialize_fails_only_on_same_code[of "new_provider ''new.plan'' example_uuids"
      example_metadata] f e
  have 2: "success (fst (initialize example_metadata (new_provider ''new.plan'' example_uuids)))"
    "length (plans (db (snd (initialize example_metadata
                                  (new_provider ''new.plan'' example_uuids))))) = 1"
    by auto
  from t 1 2 show ?thesis by blast
qed

text \<open>
  The claim as stated fails: the example store holds the plan \<open>demo\<close>, and initialising
  it again with the code \<open>other\<close> succeeds and leaves two plan rows.
\<close>

theorem initialize_second_plan_counterexample:
  "plans (db example_store) \<noteq> []
   \<and> success (fst (initialize (example_metadata\<lparr>meta_id := ''other''\<rparr>) example_store))
   \<and> length (plans (db (snd (initialize (example_metadata\<lparr>meta_id := ''other''\<rparr>)
                                 example_store)))) = 2"
  by code_simp

lemma getPlanId_cached: "planId p = Some i \<Longrightarrow> getPlanId p = Inr (i, p)"
  by (simp add: getPlanId_def)

lemma set_step_columns_fields:
  "step_number (set_step_columns updates row) = step_number row
   \<and> step_code (set_step_columns updates row)
       = (case ps_code updates of None \<Rightarrow> step_code row | Some v \<Rightarrow> v)
   \<and> step_title (set_step_columns updates row)
       = (case ps_title updates of None \<Rightarrow> step_title row | Some v \<Rightarrow> v)
   \<and> step_description (set_step_columns updates row)
       = (case ps_description updates of None \<Rightarrow> step_description row | Some v \<Rightarrow> Some v)
   \<and> step_status (set_step_columns updates row)
       = (case ps_status updates of None \<Rightarrow> step_status row | Some v \<Rightarrow> v)
   \<and> step_startedAt (set_step_columns updates row)
       = (case ps_startedAt updates of None \<Rightarrow> step_startedAt row | Some v \<Rightarrow> Some v)
   \<and> step_completedAt (set_step_columns updates row)
       = (case ps_completedAt updates of None \<Rightarrow> step_completedAt row | Some v \<Rightarrow> Some v)
   \<and> step_content (set_step_columns updates row)
       = (case ps_content updates of None \<Rightarrow> step_content row | Some v \<Rightarrow> v)"
  by (simp add: set_step_columns_def Let_def split: option.splits)

lemma set_plan_columns_fields:
  "meta_id (set_plan_columns metadata now row) = meta_id row
   \<and> meta_createdAt (set_plan_columns metadata now row) = meta_createdAt row
   \<and> meta_schemaVersion (set_plan_columns metadata now row) = meta_schemaVersion row
   \<and> meta_name (set_plan_columns metadata now row)
       = (case pm_name metadata of None \<Rightarrow> meta_name row | Some v \<Rightarrow> v)
   \<and> meta_description (set_plan_columns metadata now row)
       = (case pm_description metadata of None \<Rightarrow> meta_description row | Some v \<Rightarrow> Some v)
   \<and> meta_stage (set_plan_columns metadata now row)
       = (case pm_stage metadata of None \<Rightarrow> meta_stage row | Some v \<Rightarrow> v)
   \<and> meta_updatedAt (set_plan_columns metadata now row) = now"
  by (simp add: set_plan_columns_def Let_def split: option.splits)

lemma updateStep_writes:
  assumes "\<not> no_step_fields updates" and g: "getPlanId p = Inr (pid, p1)"
    and s: "has_schema (db p1)"
  shows "fst (updateStep number updates p) = succeeded
         \<and> db (snd (updateStep number updates p))
           = (db p)\<lparr>plan_steps :=
                map (\<lambda>row. if fst row = pid \<and> step_number (snd row) = number
                           then (fst row, set_step_columns updates (snd row)) else row)
                  (plan_steps (db p))\<rparr>"
  using assms getPlanId_db[OF g]
  by (simp add: updateStep_def prepare_def update_where_def)

lemma updateMetadata_writes:
  assumes g: "getPlanId p = Inr (pid, p1)" and s: "has_schema (db p1)"
  shows "fst (updateMetadata metadata now p) = succeeded
         \<and> db (snd (updateMetadata metadata now p))
           = (db p)\<lparr>plans :=
                map (\<lambda>row. if fst row = pid
                           then (fst row, set_plan_columns metadata now (snd row)) else row)
                  (plans (db p))\<rparr>"
  using assms getPlanId_db[OF g]
  by (simp add: updateMetadata_def prepare_def update_where_def)

text \<open>
  C4, as the code has it.  \<open>updateStep\<close> with none of its seven patchable fields supplied
  returns success and leaves the provider as it was; otherwise, on a store with a plan, it
  rewrites the step of that number with the supplied fields and nothing else.
  \<open>updateMetadata\<close> rewrites the plan row with the supplied name, description and stage and
  always with \<open>updated_at\<close> set to the current time; every other column and table is left
  untouched.
\<close>

theorem partial_updates_write_supplied_fields:
  "(no_step_fields updates \<longrightarrow> updateStep number updates p = (succeeded, p))
   \<and> (\<forall>pid p1. \<not> no_step_fields updates \<and> getPlanId p = Inr (pid, p1) \<and> has_schema (db p1)
        \<longrightarrow> fst (updateStep number updates p) = succeeded
            \<and> db (snd (updateStep number updates p))
              = (db p)\<lparr>plan_steps :=
                   map (\<lambda>row. if fst row = pid \<and> step_number (snd row) = number
                              then (fst row, set_step_columns updates (snd row)) else row)
                     (plan_steps (db p))\<rparr>)
   \<and> (\<forall>row.
        step_number (set_step_columns updates row) = step_number row
        \<and> step_code (set_step_columns updates row)
            = (case ps_code updates of None \<Rightarrow> step_code row | Some v \<Rightarrow> v)
        \<and> step_title (set_step_columns updates row)
            = (case ps_title updates of None \<Rightarrow> step_title row | Some v \<Rightarrow> v)
        \<and> step_description (set_step_columns updates row)
            = (case ps_description updates of None \<Rightarrow> step_description row | Some v \<Rightarrow> Some v)
        \<and> step_status (set_step_columns updates row)
            = (case ps_status updates of None \<Rightarrow> step_status row | Some v \<Rightarrow> v)
        \<and> step_startedAt (set_step_columns updates row)
            = (case ps_startedAt updates of None \<Rightarrow> step_startedAt row | Some v \<Rightarrow> Some v)
        \<and> step_completedAt (set_step_columns updates row)
            = (case ps_completedAt updates of
                 None \<Rightarrow> step_completedAt row | Some v \<Rightarrow> Some v)
        \<and> step_content (set_step_columns updates row)
            = (case ps_content updates of None \<Rightarrow> step_content row | Some v \<Rightarrow> v))
   \<and> (\<forall>pid p1. getPlanId p = Inr (pid, p1) \<and> has_schema (db p1)
        \<longrightarrow> fst (updateMetadata metadata now p) = succeeded
            \<and> db (snd (updateMetadata metadata now p))
              = (db p)\<lparr>plans :=
                   map (\<lambda>row. if fst row = pid
                              then (fst row, set_plan_columns metadata now (snd row)) else row)
                     (plans (db p))\<rparr>)
   \<and> (\<forall>row.
        meta_id (set_plan_columns metadata now row) = meta_id row
        \<and> meta_createdAt (set_plan_columns metadata now row) = meta_createdAt row
        \<and> meta_schemaVersion (set_plan_columns metadata now row) = meta_schemaVersion row
        \<and> meta_name (set_plan_columns metadata now row)
            = (case pm_name metadata of None \<Rightarrow> meta_name row | Some v \<Rightarrow> v)
        \<and> meta_description (set_plan_columns metadata now row)
            = (case pm_description metadata of
                 None \<Rightarrow> meta_description row | Some v \<Rightarrow> Some v)
        \<and> meta_stage (set_plan_columns metadata now row)
            = (case pm_stage metadata of None \<Rightarrow> meta_stage row | Some v \<Rightarrow> v)
        \<and> meta_updatedAt (set_plan_columns metadata now row) = now)"
proof -
  have 1: "no_step_fields updates \<longrightarrow> updateStep number updates p = (succeeded, p)"
    by (simp add: updateStep_def)
  have 2: "\<forall>pid p1. \<not> no_step_fields updates \<and> getPlanId p = Inr (pid, p1) \<and> has_schema (db p1)
        \<longrightarrow> fst (updateStep number updates p) = succeeded
            \<and> db (snd (updateStep number updates p))
              = (db p)\<lparr>plan_steps :=
                   map (\<lambda>row. if fst row = pid \<and> step_number (snd row) = number
                              then (fst row, set_step_columns updates (snd row)) else row)
                     (plan_steps (db p))\<rparr>"
    using updateStep_writes by blast
  have 4: "\<forall>pid p1. getPlanId p = Inr (pid, p1) \<and> has_schema (db p1)
        \<longrightarrow> fst (updateMetadata metadata now p) = succeeded
            \<and> db (snd (updateMetadata metadata now p))
              = (db p)\<lparr>plans :=
                   map (\<lambda>row. if fst row = pid
                              then (fst row, set_plan_columns metadata now (snd row)) else row)
                     (plans (db p))\<rparr>"
    using updateMetadata_writes by blast
  from 1 2 4 set_step_columns_fields[of updates] set_plan_columns_fields[of metadata now]
  show ?thesis by blast
qed

theorem partial_updates_witness:
  "no_step_fields empty_step_patch
   \<and> updateStep 1 empty_step_patch example_store = (succeeded, example_store)
   \<and> \<not> no_step_fields completing_patch
   \<and> getPlanId example_store = Inr (1, example_store) \<and> has_schema (db example_store)
   \<and> fst (updateStep 1 completing_patch example_store) = succeeded
   \<and> map (\<lambda>row. (step_status (snd row), step_content (snd row)))
        (plan_steps (db (snd (updateStep 1 completing_patch example_store))))
      = [(completed, ''use jwt''), (pending, ''JWT jwt Jwt jwT JWT'')]
   \<and> map (\<lambda>row. (meta_name (snd row), meta_updatedAt (snd row)))
        (plans (db (snd (updateMetadata (empty_metadata_patch\<lparr>pm_name := Some ''Renamed''\<rparr>)
                          ''2030-01-01T00:00:00Z'' example_store))))
      = [(''Renamed'', ''2030-01-01T00:00:00Z'')]"
proof -
  have n: "no_step_fields empty_step_patch"
    by (simp add: no_step_fields_def empty_step_patch_def)
  have c: "\<not> no_step_fields completing_patch"
    by (simp add: no_step_fields_def completing_patch_def)
  have "planId example_store = Some 1" by code_simp
  then have g: "getPlanId example_store = Inr (1, example_store)" by (rule getPlanId_cached)
  have s: "has_schema (db example_store)" by code_simp
  have v: "map (\<lambda>row. (step_status (snd row), step_content (snd row)))
        (plan_steps ((db example_store)\<lparr>plan_steps :=
                   map (\<lambda>row. if fst row = 1 \<and> step_number (snd row) = 1
                              then (fst row, set_step_columns completing_patch (snd row))
                              else row)
                     (plan_steps (db example_store))\<rparr>))
      = [(completed, ''use jwt''), (pending, ''JWT jwt Jwt jwT JWT'')]"
    by code_simp
  have w: "map (\<lambda>row. (meta_name (snd row), meta_updatedAt (snd row)))
        (plans ((db example_store)\<lparr>plans :=
                   map (\<lambda>row. if fst row = 1
                              then (fst row, set_plan_columns
                                     (empty_metadata_patch\<lparr>pm_name := Some ''Renamed''\<rparr>)
                                     ''2030-01-01T00:00:00Z'' (snd row))
                              else row)
                     (plans (db example_store))\<rparr>))
      = [(''Renamed'', ''2030-01-01T00:00:00Z'')]"
    by code_simp
  note t = partial_updates_write_supplied_fields[of _ 1 example_store
      "empty_metadata_patch\<lparr>pm_name := Some ''Renamed''\<rparr>" "''2030-01-01T00:00:00Z''"]
  from t[of empty_step_patch] n
  have 1: "updateStep 1 empty_step_patch example_store = (succeeded, example_store)" by blast
  from t[of completing_patch] c g s
  have 2: "fst (updateStep 1 completing_patch example_store) = succeeded"
    and 3: "db (snd (updateStep 1 completing_patch example_store))
              = (db example_store)\<lparr>plan_steps :=
                   map (\<lambda>row. if fst row = 1 \<and> step_number (snd row) = 1
                              then (fst row, set_step_columns completing_patch (snd row))
                              else row)
                     (plan_steps (db example_store))\<rparr>"
    and 4: "db (snd (updateMetadata (empty_metadata_patch\<lparr>pm_name := Some ''Renamed''\<rparr>)
                          ''2030-01-01T00:00:00Z'' example_store))
              = (db example_store)\<lparr>plans :=
                   map (\<lambda>row. if fst row = 1
                              then (fst row, set_plan_columns
                                     (empty_metadata_patch\<lparr>pm_name := Some ''Renamed''\<rparr>)
                                     ''2030-01-01T00:00:00Z'' (snd row))
                              else row)
                     (plans (db example_store))\<rparr>"
    by blast+
  from n 1 c g s 2 v w show ?thesis unfolding 3 4 by blast
qed

text \<open>
  The claim as stated fails for \<open>updateMetadata\<close>: a patch without fields succeeds on the
  example store and changes its plan row, whose \<open>updated_at\<close> becomes the current time.
\<close>

theorem updateMetadata_empty_patch_counterexample:
  "success (fst (updateMetadata empty_metadata_patch ''2030-01-01T00:00:00Z'' example_store))
   \<and> map_option meta_updatedAt (data (fst (getMetadata example_store)))
       = Some ''2024-01-01T00:00:00Z''
   \<and> map_option meta_updatedAt
        (data (fst (getMetadata
           (snd (updateMetadata empty_metadata_patch ''2030-01-01T00:00:00Z'' example_store)))))
       = Some ''2030-01-01T00:00:00Z''
   \<and> db (snd (updateMetadata empty_metadata_patch ''2030-01-01T00:00:00Z'' example_store))
       \<noteq> db example_store"
  by code_simp

lemma getPlanId_planId: "getPlanId p = Inr (pid, p1) \<Longrightarrow> planId p1 = Some pid"
  by (auto simp: getPlanId_def split: option.splits sum.splits list.splits)

lemma conflict_iff_key:
  "(fst row = pid \<and> same_file ty fn (snd row)) \<longleftrightarrow> file_key row = (pid, ty, fn)"
  by (auto simp: same_file_def file_key_def)

lemma distinct_key_count:
  "distinct (map f xs) \<Longrightarrow> x \<in> set xs \<Longrightarrow> length (filter (\<lambda>y. f y = f x) xs) = 1"
proof (induction xs)
  case Nil
  then show ?case by simp
next
  case (Cons y ys)
  show ?case
  proof (cases "x = y")
    case True
    from Cons.prems(1) have "f y \<notin> f ` set ys" by simp
    then have "\<forall>z \<in> set ys. f z \<noteq> f y" by (auto simp: image_iff)
    then have "filter (\<lambda>z. f z = f y) ys = []" by (simp add: filter_empty_conv)
    with True show ?thesis by simp
  next
    case False
    with Cons.prems have xin: "x \<in> set ys" by simp
    with Cons.prems(1) have "f y \<noteq> f x" by force
    with Cons.IH xin Cons.prems(1) show ?thesis by simp
  qed
qed

text \<open>What the conflict branch of the upsert does to a row.\<close>

lemma upsert_file_new:
  assumes "\<forall>row \<in> set (plan_files d). file_key row \<noteq> (pid, file_type f, file_filename f)"
    and "foreign_key_ok pid d"
  shows "upsert_file pid f d = Inr (d\<lparr>plan_files := plan_files d @ [(pid, f)]\<rparr>)"
  using assms by (simp add: upsert_file_def Let_def conflict_iff_key)

lemma upsert_file_existing:
  assumes "\<exists>row \<in> set (plan_files d). file_key row = (pid, file_type f, file_filename f)"
  shows "upsert_file pid f d =
           Inr (d\<lparr>plan_files :=
                  map (\<lambda>row. if file_key row = (pid, file_type f, file_filename f)
                             then (fst row, (snd row)\<lparr>file_content := file_content f,
                                                        file_updatedAt := file_updatedAt f\<rparr>)
                             else row) (plan_files d)\<rparr>)"
  using assms by (simp add: upsert_file_def Let_def conflict_iff_key update_where_def)

lemma find_rows_none:
  assumes "\<forall>row \<in> set rows. file_key row \<noteq> (pid, ty, fn)"
  shows "find (same_file ty fn) (rows_of_plan pid rows) = None"
  using assms
  by (auto simp: find_None_iff rows_of_plan_def same_file_def file_key_def)

lemma find_rows_updated:
  "find (same_file ty fn)
     (rows_of_plan pid
        (map (\<lambda>row. if file_key row = (pid, ty, fn) then (fst row, g (snd row)) else row) rows))
   = map_option g (find (same_file ty fn) (rows_of_plan pid rows))"
  if keep: "\<And>r. same_file ty fn (g r) = same_file ty fn r"
proof (induction rows)
  case Nil
  then show ?case by (simp add: rows_of_plan_def)
next
  case (Cons row rows)
  then show ?case
    by (cases "fst row = pid \<and> same_file ty fn (snd row)")
      (auto simp: rows_of_plan_def conflict_iff_key[symmetric] keep)
qed

lemma find_append_None:
  "find P xs = None \<Longrightarrow> find P (xs @ ys) = find P ys"
  by (induction xs) (auto split: if_splits)

lemma keys_updated:
  assumes "\<And>r. file_type (g r) = file_type r" "\<And>r. file_filename (g r) = file_filename r"
  shows "map file_key (map (\<lambda>row. if file_key row = k then (fst row, g (snd row)) else row) rows)
           = map file_key rows"
  by (induction rows) (auto simp: file_key_def assms)

lemma filter_updated:
  assumes "\<And>r. file_type (g r) = file_type r" "\<And>r. file_filename (g r) = file_filename r"
  shows "filter (\<lambda>row. file_key row = k)
           (map (\<lambda>row. if file_key row = k then (fst row, g (snd row)) else row) rows)
         = map (\<lambda>row. if file_key row = k then (fst row, g (snd row)) else row)
             (filter (\<lambda>row. file_key row = k) rows)"
  by (induction rows) (auto simp: file_key_def assms)

lemma saveFile_upsert:
  assumes g: "getPlanId p = Inr (pid, p1)" and s: "has_schema (db p)"
    and fk: "foreign_key_ok pid (db p)" and u: "unique_file_keys (db p)"
  shows "fst (saveFile f p) = succeeded
    \<and> getPlanId (snd (saveFile f p)) = Inr (pid, snd (saveFile f p))
    \<and> has_schema (db (snd (saveFile f p)))
    \<and> foreign_key_ok pid (db (snd (saveFile f p)))
    \<and> unique_file_keys (db (snd (saveFile f p)))
    \<and> fst (getFile (file_type f) (file_filename f) (snd (saveFile f p)))
           = succeeded_with
               (Some (case find (same_file (file_type f) (file_filename f))
                             (rows_of_plan pid (plan_files (db p))) of
                        None \<Rightarrow> f
                      | Some old \<Rightarrow> old\<lparr>file_content := file_content f,
                                         file_updatedAt := file_updatedAt f\<rparr>))
    \<and> length (filter (\<lambda>row. file_key row = (pid, file_type f, file_filename f))
                   (plan_files (db (snd (saveFile f p))))) = 1
    \<and> length (plan_files (db (snd (saveFile f p))))
           = (if \<exists>row \<in> set (plan_files (db p)).
                   file_key row = (pid, file_type f, file_filename f)
              then length (plan_files (db p)) else Suc (length (plan_files (db p))))"
proof -
  let ?k = "(pid, file_type f, file_filename f)"
  let ?g = "\<lambda>r. r\<lparr>file_content := file_content f, file_updatedAt := file_updatedAt f\<rparr>"
  let ?upd = "\<lambda>row. if file_key row = ?k then (fst row, ?g (snd row)) else row"
  from getPlanId_db[OF g] have d1: "db p1 = db p" .
  from getPlanId_planId[OF g] have c1: "planId p1 = Some pid" .
  have keep: "\<And>r. same_file (file_type f) (file_filename f) (?g r)
                 = same_file (file_type f) (file_filename f) r"
    by (simp add: same_file_def)
  have keys: "map file_key (map ?upd (plan_files (db p))) = map file_key (plan_files (db p))"
    by (rule keys_updated) simp_all
  show ?thesis
  proof (cases "\<exists>row \<in> set (plan_files (db p)). file_key row = ?k")
    case True
    from upsert_file_existing[OF True]
    have sv: "saveFile f p
                = (succeeded, p1\<lparr>db := (db p)\<lparr>plan_files := map ?upd (plan_files (db p))\<rparr>\<rparr>)"
      using g s d1 by (simp add: saveFile_def prepare_def)
    from True obtain row where row: "row \<in> set (plan_files (db p))" "file_key row = ?k" by blast
    have cnt: "length (filter (\<lambda>row. file_key row = ?k) (map ?upd (plan_files (db p)))) = 1"
    proof -
      have "filter (\<lambda>row. file_key row = ?k) (map ?upd (plan_files (db p)))
              = map ?upd (filter (\<lambda>row. file_key row = ?k) (plan_files (db p)))"
        by (rule filter_updated) simp_all
      moreover have "length (filter (\<lambda>y. file_key y = file_key row) (plan_files (db p))) = 1"
        using u row(1) unfolding unique_file_keys_def by (rule distinct_key_count)
      ultimately show ?thesis using row(2) by simp
    qed
    have fnd: "find (same_file (file_type f) (file_filename f))
                 (rows_of_plan pid (map ?upd (plan_files (db p))))
               = map_option ?g (find (same_file (file_type f) (file_filename f))
                   (rows_of_plan pid (plan_files (db p))))"
      by (rule find_rows_updated[OF keep])
    have some: "find (same_file (file_type f) (file_filename f))
                   (rows_of_plan pid (plan_files (db p))) \<noteq> None"
      using row by (auto simp: find_None_iff rows_of_plan_def same_file_def file_key_def)
    have uk: "distinct (map file_key (map ?upd (plan_files (db p))))"
      using u unfolding keys unique_file_keys_def .
    show ?thesis
      using True s fk c1 cnt some
      by (auto simp: sv getPlanId_def getFile_def prepare_def foreign_key_ok_def
          unique_file_keys_def succeeded_with_def fnd uk simp del: map_map
          split: option.splits)
  next
    case False
    then have none: "\<forall>row \<in> set (plan_files (db p)). file_key row \<noteq> ?k" by blast
    from upsert_file_new[OF none fk]
    have sv: "saveFile f p
                = (succeeded, p1\<lparr>db := (db p)\<lparr>plan_files := plan_files (db p) @ [(pid, f)]\<rparr>\<rparr>)"
      using g s d1 by (simp add: saveFile_def prepare_def)
    have cnt: "filter (\<lambda>row. file_key row = ?k) (plan_files (db p)) = []"
      using none by (simp add: filter_empty_conv)
    have fnd: "find (same_file (file_type f) (file_filename f))
                 (rows_of_plan pid (plan_files (db p))) = None"
      by (rule find_rows_none[OF none])
    then have fnd2: "find (same_file (file_type f) (file_filename f))
                 (rows_of_plan pid (plan_files (db p) @ [(pid, f)])) = Some f"
      by (simp add: rows_of_plan_def find_append_None same_file_def)
    have dist: "distinct (map file_key (plan_files (db p) @ [(pid, f)]))"
      using u none by (auto simp: unique_file_keys_def file_key_def)
    have k: "file_key (pid, f) = ?k" by (simp add: file_key_def)
    show ?thesis
      using False s fk c1 cnt fnd fnd2 dist k
      by (simp add: sv getPlanId_def getFile_def prepare_def foreign_key_ok_def
          unique_file_keys_def succeeded_with_def)
  qed
qed

text \<open>
  C3.  On a provider whose store has the tables and the plan, \<open>saveFile\<close> succeeds and
  \<open>getFile\<close> then returns, for a key that had a row, that row with the content and
  \<open>updatedAt\<close> of the call and its \<open>createdAt\<close> as it was, and for a new key the file as
  given.  A second \<open>saveFile\<close> with the same type, filename and content leaves
  \<open>getFile\<close> returning that content; the key has exactly one row after each call and
  the second call adds none.
\<close>

theorem saveFile_is_an_upsert:
  assumes "getPlanId p = Inr (pid, p1)" and "has_schema (db p)"
    and "foreign_key_ok pid (db p)" and "unique_file_keys (db p)"
    and "file_type again = file_type f" and "file_filename again = file_filename f"
    and "file_content again = file_content f"
  shows "success (fst (saveFile f p))
    \<and> data (fst (getFile (file_type f) (file_filename f) (snd (saveFile f p))))
        = Some (Some (case find (same_file (file_type f) (file_filename f))
                             (rows_of_plan pid (plan_files (db p))) of
                        None \<Rightarrow> f
                      | Some old \<Rightarrow> old\<lparr>file_content := file_content f,
                                         file_updatedAt := file_updatedAt f\<rparr>))
    \<and> length (filter (\<lambda>row. file_key row = (pid, file_type f, file_filename f))
                 (plan_files (db (snd (saveFile f p))))) = 1
    \<and> success (fst (saveFile again (snd (saveFile f p))))
    \<and> (\<exists>stored.
          data (fst (getFile (file_type f) (file_filename f)
                       (snd (saveFile again (snd (saveFile f p)))))) = Some (Some stored)
          \<and> file_content stored = file_content f
          \<and> file_updatedAt stored = file_updatedAt again
          \<and> file_createdAt stored
              = (case find (same_file (file_type f) (file_filename f))
                        (rows_of_plan pid (plan_files (db p))) of
                   None \<Rightarrow> file_createdAt f | Some old \<Rightarrow> file_createdAt old))
    \<and> length (filter (\<lambda>row. file_key row = (pid, file_type f, file_filename f))
                 (plan_files (db (snd (saveFile again (snd (saveFile f p))))))) = 1
    \<and> length (plan_files (db (snd (saveFile again (snd (saveFile f p))))))
        = length (plan_files (db (snd (saveFile f p))))"
proof -
  let ?p' = "snd (saveFile f p)"
  let ?k = "(pid, file_type f, file_filename f)"
  note first = saveFile_upsert[OF assms(1-4), of f]
  from first have g': "getPlanId ?p' = Inr (pid, ?p')" and s': "has_schema (db ?p')"
    and fk': "foreign_key_ok pid (db ?p')" and u': "unique_file_keys (db ?p')"
    by blast+
  note second = saveFile_upsert[OF g' s' fk' u', of again]
  from first have got: "fst (getFile (file_type f) (file_filename f) ?p')
       = succeeded_with
           (Some (case find (same_file (file_type f) (file_filename f))
                         (rows_of_plan pid (plan_files (db p))) of
                    None \<Rightarrow> f
                  | Some old \<Rightarrow> old\<lparr>file_content := file_content f,
                                     file_updatedAt := file_updatedAt f\<rparr>))"
    by blast
  from first have one: "length (filter (\<lambda>row. file_key row = ?k) (plan_files (db ?p'))) = 1"
    by blast
  then have ex: "\<exists>row \<in> set (plan_files (db ?p')). file_key row = ?k"
    by (metis (mono_tags, lifting) filter_empty_conv length_0_conv zero_neq_one)
  from g' s' have gf: "fst (getFile (file_type f) (file_filename f) ?p')
       = (case find (same_file (file_type f) (file_filename f))
                 (rows_of_plan pid (plan_files (db ?p'))) of
            None \<Rightarrow> succeeded_with None | Some row \<Rightarrow> succeeded_with (Some row))"
    by (simp add: getFile_def prepare_def split: option.splits)
  from got gf have fnd: "find (same_file (file_type f) (file_filename f))
                 (rows_of_plan pid (plan_files (db ?p')))
       = Some (case find (same_file (file_type f) (file_filename f))
                         (rows_of_plan pid (plan_files (db p))) of
                    None \<Rightarrow> f
                  | Some old \<Rightarrow> old\<lparr>file_content := file_content f,
                                     file_updatedAt := file_updatedAt f\<rparr>)"
    by (auto simp: succeeded_with_def split: option.splits)
  from second assms(5,6) fnd
  have got2: "fst (getFile (file_type f) (file_filename f) (snd (saveFile again ?p')))
       = succeeded_with
           (Some ((case find (same_file (file_type f) (file_filename f))
                         (rows_of_plan pid (plan_files (db p))) of
                    None \<Rightarrow> f
                  | Some old \<Rightarrow> old\<lparr>file_content := file_content f,
                                     file_updatedAt := file_updatedAt f\<rparr>)
                  \<lparr>file_content := file_content again,
                   file_updatedAt := file_updatedAt again\<rparr>))"
    by simp
  from second assms(5,6) ex
  have len2: "length (plan_files (db (snd (saveFile again ?p')))) = length (plan_files (db ?p'))"
    and one2: "length (filter (\<lambda>row. file_key row = ?k)
                         (plan_files (db (snd (saveFile again ?p'))))) = 1"
    by auto
  have stored: "\<exists>stored.
          data (fst (getFile (file_type f) (file_filename f) (snd (saveFile again ?p'))))
            = Some (Some stored)
          \<and> file_content stored = file_content f
          \<and> file_updatedAt stored = file_updatedAt again
          \<and> file_createdAt stored
              = (case find (same_file (file_type f) (file_filename f))
                        (rows_of_plan pid (plan_files (db p))) of
                   None \<Rightarrow> file_createdAt f | Some old \<Rightarrow> file_createdAt old)"
    unfolding got2 using assms(7)
    by (auto simp: succeeded_with_def split: option.splits)
  from first have ok1: "success (fst (saveFile f p))" by (simp add: succeeded_def)
  from second have ok2: "success (fst (saveFile again ?p'))" by (simp add: succeeded_def)
  from got have d1: "data (fst (getFile (file_type f) (file_filename f) ?p'))
        = Some (Some (case find (same_file (file_type f) (file_filename f))
                             (rows_of_plan pid (plan_files (db p))) of
                        None \<Rightarrow> f
                      | Some old \<Rightarrow> old\<lparr>file_content := file_content f,
                                         file_updatedAt := file_updatedAt f\<rparr>))"
    by (simp add: succeeded_with_def)
  from ok1 d1 one ok2 stored one2 len2 show ?thesis by blast
qed

theorem saveFile_witness:
  "getPlanId example_store_with_file = Inr (1, example_store_with_file)
   \<and> has_schema (db example_store_with_file)
   \<and> foreign_key_ok 1 (db example_store_with_file)
   \<and> unique_file_keys (db example_store_with_file)
   \<and> data (fst (getFile ''idea'' ''IDEA.md''
                  (snd (saveFile example_file_rewritten example_store_with_file))))
       = Some (Some \<lparr>file_type = ''idea'', file_filename = ''IDEA.md'',
                     file_content = ''a better idea'',
                     file_createdAt = ''2024-01-01T00:00:00Z'',
                     file_updatedAt = ''2024-03-01T00:00:00Z''\<rparr>)
   \<and> length (plan_files (db (snd (saveFile example_file_rewritten
                  (snd (saveFile example_file_rewritten example_store_with_file)))))) = 1"
proof -
  have "planId example_store_with_file = Some 1" by code_simp
  then have g: "getPlanId example_store_with_file = Inr (1, example_store_with_file)"
    by (rule getPlanId_cached)
  have s: "has_schema (db example_store_with_file)" by code_simp
  have fk: "foreign_key_ok 1 (db example_store_with_file)" by code_simp
  have u: "unique_file_keys (db example_store_with_file)" by code_simp
  have ty: "file_type example_file_rewritten = ''idea''"
    "file_filename example_file_rewritten = ''IDEA.md''"
    by (simp_all add: example_file_rewritten_def)
  have old: "(case find (same_file ''idea'' ''IDEA.md'')
                     (rows_of_plan 1 (plan_files (db example_store_with_file))) of
                None \<Rightarrow> example_file_rewritten
              | Some old \<Rightarrow> old\<lparr>file_content := file_content example_file_rewritten,
                                 file_updatedAt := file_updatedAt example_file_rewritten\<rparr>)
             = \<lparr>file_type = ''idea'', file_filename = ''IDEA.md'',
                file_content = ''a better idea'',
                file_createdAt = ''2024-01-01T00:00:00Z'',
                file_updatedAt = ''2024-03-01T00:00:00Z''\<rparr>"
    by code_simp
  have len: "length (plan_files (db (snd (saveFile example_file_rewritten
                  example_store_with_file)))) = 1"
    by code_simp
  from saveFile_is_an_upsert[OF g s fk u refl refl refl, of example_file_rewritten]
  have "data (fst (getFile ''idea'' ''IDEA.md''
                  (snd (saveFile example_file_rewritten example_store_with_file))))
       = Some (Some \<lparr>file_type = ''idea'', file_filename = ''IDEA.md'',
                     file_content = ''a better idea'',
                     file_createdAt = ''2024-01-01T00:00:00Z'',
                     file_updatedAt = ''2024-03-01T00:00:00Z''\<rparr>)"
    and "length (plan_files (db (snd (saveFile example_file_rewritten
                  (snd (saveFile example_file_rewritten example_store_with_file))))))
         = length (plan_files (db (snd (saveFile example_file_rewritten
                  example_store_with_file))))"
    unfolding ty old by blast+
  with g s fk u len show ?thesis by simp
qed

section \<open>Checkpoint restore\<close>

lemma getCheckpoint_db: "db (snd (getCheckpoint name p)) = db p"
  by (auto simp: getCheckpoint_def dest: getPlanId_db split: sum.splits option.splits prod.splits)

lemma run_statement_Inr:
  "run_statement fault k statement d = Inr d' \<Longrightarrow> statement d = Inr d'"
  by (simp add: run_statement_def split: if_splits)

lemma restore_steps_Inr:
  "run_statements fault k (map (restore_step_statement pid) steps) d = Inr d'
     \<Longrightarrow> d' = d\<lparr>plan_steps := foldl (restored_steps pid) (plan_steps d) steps\<rparr>"
proof (induction steps arbitrary: k d)
  case Nil
  then show ?case by simp
next
  case (Cons s steps)
  from Cons.prems obtain d1 where
    one: "run_statement fault k (restore_step_statement pid s) d = Inr d1"
    and rest: "run_statements fault (Suc k) (map (restore_step_statement pid) steps) d1 = Inr d'"
    by (auto split: sum.splits)
  from run_statement_Inr[OF one]
  have d1: "d1 = d\<lparr>plan_steps := restored_steps pid (plan_steps d) s\<rparr>"
    by (auto simp: restore_step_statement_def split: sum.splits)
  from Cons.IH[OF rest] d1 show ?case by simp
qed

lemma upsert_file_Inr:
  "upsert_file pid f d = Inr d' \<Longrightarrow> d' = d\<lparr>plan_files := upserted_files pid (plan_files d) f\<rparr>"
  by (auto simp: upsert_file_def upserted_files_def Let_def split: if_splits)

lemma restore_files_Inr:
  "run_statements fault k (map (restore_file_statement pid now) files) d = Inr d'
     \<Longrightarrow> d' = d\<lparr>plan_files := foldl (upserted_files pid) (plan_files d)
                                  (map (restored_file now) files)\<rparr>"
proof (induction files arbitrary: k d)
  case Nil
  then show ?case by simp
next
  case (Cons f files)
  from Cons.prems obtain d1 where
    one: "run_statement fault k (restore_file_statement pid now f) d = Inr d1"
    and rest: "run_statements fault (Suc k) (map (restore_file_statement pid now) files) d1
                 = Inr d'"
    by (auto split: sum.splits)
  from run_statement_Inr[OF one]
  have "upsert_file pid (restored_file now f) d = Inr d1"
    by (auto simp: restore_file_statement_def split: sum.splits)
  from upsert_file_Inr[OF this]
  have d1: "d1 = d\<lparr>plan_files := upserted_files pid (plan_files d) (restored_file now f)\<rparr>" .
  from Cons.IH[OF rest] d1 show ?case by simp
qed

subsection \<open>The statements of the transaction, one after the other\<close>

lemma metadata_after_restore_update:
  "metadata_after_restore m now r =
     r\<lparr>meta_name := meta_name m, meta_description := or_null (meta_description m),
       meta_stage := meta_stage m, meta_updatedAt := now\<rparr>"
  by (cases r) (simp add: metadata_after_restore_def)

lemma restored_plans_rows:
  "restored_plans m now pid rows =
     map (\<lambda>row. if fst row = pid then (fst row, metadata_after_restore m now (snd row)) else row)
       rows"
  by (simp add: restored_plans_def update_where_def metadata_after_restore_update)

lemma step_number_after_restore: "step_number (step_after_restore steps row) = step_number row"
  by (simp add: step_after_restore_def split: option.splits)

lemma step_after_restore_Nil: "step_after_restore [] row = row"
  by (simp add: step_after_restore_def)

lemma step_after_restore_snoc:
  "step_after_restore (steps @ [s]) row =
     (if step_number row = snap_number s
      then (step_after_restore steps row)
             \<lparr>step_status := snap_status s, step_startedAt := or_null (snap_startedAt s),
              step_completedAt := or_null (snap_completedAt s)\<rparr>
      else step_after_restore steps row)"
  by (cases row) (auto simp: step_after_restore_def split: option.splits)

lemma foldl_restored_steps:
  "foldl (restored_steps pid) rows steps =
     map (\<lambda>row. if fst row = pid then (fst row, step_after_restore steps (snd row)) else row)
       rows"
proof (induction steps rule: rev_induct)
  case Nil
  show ?case by (induction rows) (auto simp: step_after_restore_Nil)
next
  case (snoc s steps)
  have "foldl (restored_steps pid) rows (steps @ [s])
          = restored_steps pid (foldl (restored_steps pid) rows steps) s"
    by simp
  also have "\<dots> = map (\<lambda>row. if fst row = pid
                               then (fst row, step_after_restore (steps @ [s]) (snd row))
                               else row) rows"
    unfolding snoc.IH
    by (simp add: restored_steps_def update_where_def step_after_restore_snoc
        step_number_after_restore)
  finally show ?case .
qed

lemma file_key_after_restore:
  "file_type (file_after_restore files now row) = file_type row"
  "file_filename (file_after_restore files now row) = file_filename row"
  by (simp_all add: file_after_restore_def split: option.splits)

lemma file_after_restore_Nil: "file_after_restore [] now row = row"
  by (simp add: file_after_restore_def)

lemma file_after_restore_snoc:
  "file_after_restore (files @ [f]) now row =
     (if file_type row = snap_type f \<and> file_filename row = snap_filename f
      then (file_after_restore files now row)
             \<lparr>file_content := snap_content f, file_updatedAt := now\<rparr>
      else file_after_restore files now row)"
  by (cases row) (auto simp: file_after_restore_def split: option.splits)

lemma file_created_snoc:
  "file_created (files @ [f]) now key =
     (if snapshot_key f = key
      then (file_created files now key)\<lparr>file_content := snap_content f, file_updatedAt := now\<rparr>
      else file_created files now key)"
  by (simp add: file_created_def)

lemma file_created_own:
  "file_created (files @ [f]) now (snapshot_key f) = restored_file now f"
  by (simp add: file_created_def restored_file_def snapshot_key_def)

lemma first_occurrences_snoc:
  "first_occurrences (xs @ [x]) =
     (if x \<in> set xs then first_occurrences xs else first_occurrences xs @ [x])"
  by (simp add: first_occurrences_def)

lemma set_first_occurrences: "set (first_occurrences xs) = set xs"
  by (simp add: first_occurrences_def)

lemma files_without_row_snoc:
  "files_without_row pid rows (files @ [f]) =
     files_without_row pid rows files
     @ (if \<exists>row \<in> set rows. fst row = pid \<and> file_type (snd row) = snap_type f
                               \<and> file_filename (snd row) = snap_filename f
        then [] else [f])"
  by (simp add: files_without_row_def)

lemma bex_map: "(\<exists>y \<in> set (map g xs). P y) \<longleftrightarrow> (\<exists>x \<in> set xs. P (g x))"
  by (induction xs) auto

lemma upserted_files_split:
  "upserted_files pid rows file =
     update_where (\<lambda>row. fst row = pid
                          \<and> same_file (file_type file) (file_filename file) (snd row))
       (\<lambda>row. (fst row, (snd row)\<lparr>file_content := file_content file,
                                  file_updatedAt := file_updatedAt file\<rparr>))
       rows
     @ (if \<exists>row \<in> set rows. fst row = pid
                               \<and> same_file (file_type file) (file_filename file) (snd row)
        then [] else [(pid, file)])"
proof -
  have "update_where c u rows = rows" if "\<not> (\<exists>row \<in> set rows. c row)"
    for c :: "nat \<times> PlanFile \<Rightarrow> bool" and u
    using that by (induction rows) (auto simp: update_where_def)
  then show ?thesis by (auto simp: upserted_files_def Let_def)
qed

lemma foldl_upserted_files:
  "foldl (upserted_files pid) rows (map (restored_file now) files)
     = files_after_restore files now pid rows"
proof (induction files rule: rev_induct)
  case Nil
  show ?case
    by (induction rows)
      (auto simp: files_after_restore_def file_after_restore_Nil files_without_row_def
        first_occurrences_def)
next
  case (snoc f files)
  let ?has_row = "\<exists>row \<in> set rows. fst row = pid \<and> file_type (snd row) = snap_type f
                                  \<and> file_filename (snd row) = snap_filename f"
  let ?ks = "map snapshot_key (files_without_row pid rows files)"
  let ?K = "first_occurrences ?ks"
  let ?A = "map (\<lambda>row. if fst row = pid
                        then (fst row, file_after_restore files now (snd row)) else row) rows"
  let ?B = "map (\<lambda>key. (pid, file_created files now key)) ?K"
  let ?c = "\<lambda>row. fst row = pid
                   \<and> same_file (file_type (restored_file now f))
                        (file_filename (restored_file now f)) (snd row)"
  let ?u = "\<lambda>row. (fst row, (snd row)\<lparr>file_content := file_content (restored_file now f),
                                      file_updatedAt := file_updatedAt (restored_file now f)\<rparr>)"
  have rf: "file_type (restored_file now f) = snap_type f"
    "file_filename (restored_file now f) = snap_filename f"
    "file_content (restored_file now f) = snap_content f"
    "file_updatedAt (restored_file now f) = now"
    by (simp_all add: restored_file_def)
  have A: "update_where ?c ?u ?A =
             map (\<lambda>row. if fst row = pid
                         then (fst row, file_after_restore (files @ [f]) now (snd row))
                         else row) rows"
    by (simp add: update_where_def rf same_file_def file_key_after_restore
        file_after_restore_snoc)
  have B: "update_where ?c ?u ?B =
             map (\<lambda>key. (pid, file_created (files @ [f]) now key)) ?K"
    by (auto simp: update_where_def rf same_file_def file_created_snoc snapshot_key_def
        file_created_def)
  have conflict: "(\<exists>row \<in> set (?A @ ?B). ?c row) \<longleftrightarrow> ?has_row \<or> snapshot_key f \<in> set ?ks"
  proof -
    have "(\<exists>row \<in> set ?A. ?c row) \<longleftrightarrow> ?has_row"
      unfolding bex_map by (auto simp: rf same_file_def file_key_after_restore)
    moreover have "(\<exists>row \<in> set ?B. ?c row) \<longleftrightarrow> (\<exists>key \<in> set ?K. key = snapshot_key f)"
      unfolding bex_map
      by (force simp: rf same_file_def file_created_def snapshot_key_def)
    then have "(\<exists>row \<in> set ?B. ?c row) \<longleftrightarrow> snapshot_key f \<in> set ?ks"
      by (simp add: set_first_occurrences del: set_map)
    ultimately show ?thesis by (simp only: set_append bex_Un)
  qed
  have no_key: "snapshot_key f \<notin> set ?ks" if ?has_row
    using that by (auto simp: files_without_row_def snapshot_key_def)
  have "foldl (upserted_files pid) rows (map (restored_file now) (files @ [f]))
          = upserted_files pid (?A @ ?B) (restored_file now f)"
    by (simp add: snoc.IH files_after_restore_def)
  also have "\<dots> = update_where ?c ?u ?A @ update_where ?c ?u ?B
                   @ (if ?has_row \<or> snapshot_key f \<in> set ?ks then []
                      else [(pid, restored_file now f)])"
    unfolding upserted_files_split conflict by (simp add: update_where_def)
  also have "\<dots> = files_after_restore (files @ [f]) now pid rows"
  proof (cases ?has_row)
    case True
    with no_key show ?thesis
      unfolding A B
      by (simp add: files_after_restore_def files_without_row_snoc)
  next
    case False
    show ?thesis
    proof (cases "snapshot_key f \<in> set ?ks")
      case True
      with False show ?thesis
        unfolding A B
        by (simp add: files_after_restore_def files_without_row_snoc first_occurrences_snoc)
    next
      case notin: False
      with False show ?thesis
        unfolding A B
        by (simp add: files_after_restore_def files_without_row_snoc first_occurrences_snoc
            file_created_own)
    qed
  qed
  finally show ?case .
qed

lemma restore_body_Inr:
  assumes "restore_body snapshot pid now fault d = Inr d'"
  shows "d' = store_after_restore snapshot pid now d"
proof -
  from assms obtain d1 d2 where
    m: "run_statement fault 0 (restore_metadata_statement (snapshot_metadata snapshot) now pid) d
          = Inr d1"
    and s: "run_statements fault 1 (map (restore_step_statement pid) (snapshot_steps snapshot)) d1
          = Inr d2"
    and f: "run_statements fault (1 + length (snapshot_steps snapshot))
              (map (restore_file_statement pid now) (snapshot_files snapshot)) d2 = Inr d'"
    by (auto simp: restore_body_def split: sum.splits)
  from run_statement_Inr[OF m]
  have d1: "d1 = d\<lparr>plans := restored_plans (snapshot_metadata snapshot) now pid (plans d)\<rparr>"
    by (auto simp: restore_metadata_statement_def split: sum.splits)
  from restore_steps_Inr[OF s] restore_files_Inr[OF f] d1
  have "d' = d\<lparr>plans := restored_plans (snapshot_metadata snapshot) now pid (plans d),
                plan_steps := foldl (restored_steps pid) (plan_steps d) (snapshot_steps snapshot),
                plan_files := foldl (upserted_files pid) (plan_files d)
                                (map (restored_file now) (snapshot_files snapshot))\<rparr>"
    by simp
  then show ?thesis
    by (simp add: store_after_restore_def restored_plans_rows foldl_restored_steps
        foldl_upserted_files)
qed

lemma run_statements_fault:
  "k0 \<le> k \<Longrightarrow> k < k0 + length statements
     \<Longrightarrow> \<exists>e. run_statements (Some k) k0 statements d = Inl e"
proof (induction statements arbitrary: k0 d)
  case Nil
  then show ?case by simp
next
  case (Cons st statements)
  show ?case
  proof (cases "k = k0")
    case True
    then show ?thesis by (simp add: run_statement_def)
  next
    case False
    with Cons.prems have "Suc k0 \<le> k" "k < Suc k0 + length statements" by simp_all
    from Cons.IH[OF this] show ?thesis
      by (cases "run_statement (Some k) k0 st d") auto
  qed
qed

lemma restore_body_fault:
  assumes "k < 1 + length (snapshot_steps snapshot) + length (snapshot_files snapshot)"
  shows "\<exists>e. restore_body snapshot pid now (Some k) d = Inl e"
proof (cases "k = 0")
  case True
  then show ?thesis by (simp add: restore_body_def run_statement_def)
next
  case nz: False
  show ?thesis
  proof (cases "run_statement (Some k) 0
                  (restore_metadata_statement (snapshot_metadata snapshot) now pid) d")
    case (Inl e)
    then show ?thesis by (simp add: restore_body_def)
  next
    case (Inr d1)
    show ?thesis
    proof (cases "k < 1 + length (snapshot_steps snapshot)")
      case True
      with nz have "1 \<le> k"
        "k < 1 + length (map (restore_step_statement pid) (snapshot_steps snapshot))"
        by simp_all
      from run_statements_fault[OF this, of d1] Inr show ?thesis
        by (auto simp: restore_body_def)
    next
      case False
      with assms have
        "1 + length (snapshot_steps snapshot) \<le> k"
        "k < 1 + length (snapshot_steps snapshot)
               + length (map (restore_file_statement pid now) (snapshot_files snapshot))"
        by simp_all
      from run_statements_fault[OF this] Inr show ?thesis
        by (cases "run_statements (Some k) 1
                     (map (restore_step_statement pid) (snapshot_steps snapshot)) d1")
          (auto simp: restore_body_def)
    qed
  qed
qed

text \<open>The three ways a restore ends.\<close>

lemma restoreCheckpoint_cases:
  obtains
    (not_found) "fst (restoreCheckpoint name now fault p) = failed (''Checkpoint not found: '' @ name)"
      "db (snd (restoreCheckpoint name now fault p)) = db p"
  | (no_plan) e where "fst (restoreCheckpoint name now fault p) = failed e"
      "db (snd (restoreCheckpoint name now fault p)) = db p"
  | (ran) checkpoint pid p1 where
      "data (fst (getCheckpoint name p)) = Some (Some checkpoint)"
      "getPlanId (snd (getCheckpoint name p)) = Inr (pid, p1)"
      "restoreCheckpoint name now fault p
         = (case transaction (restore_body (checkpoint_snapshot checkpoint) pid now fault) (db p) of
              (Some e, d) \<Rightarrow> (failed e, p1\<lparr>db := d\<rparr>)
            | (None, d) \<Rightarrow> (succeeded, p1\<lparr>db := d\<rparr>))"
proof -
  obtain r p0 where gc: "getCheckpoint name p = (r, p0)" by (cases "getCheckpoint name p")
  from getCheckpoint_db[of name p] gc have d0: "db p0 = db p" by simp
  show ?thesis
  proof (cases "success r \<and> (\<exists>c. data r = Some (Some c))")
    case False
    then have "restoreCheckpoint name now fault p
                 = (failed (''Checkpoint not found: '' @ name), p0)"
      by (auto simp: restoreCheckpoint_def gc split: option.splits bool.splits)
    with d0 not_found show ?thesis by simp
  next
    case True
    then obtain c where c: "success r" "data r = Some (Some c)" by blast
    show ?thesis
    proof (cases "getPlanId p0")
      case (Inl e)
      with c have "restoreCheckpoint name now fault p = (failed e, p0)"
        by (simp add: restoreCheckpoint_def gc Let_def)
      with d0 no_plan show ?thesis by simp
    next
      case (Inr a)
      obtain pid p1 where a: "a = (pid, p1)" by (cases a)
      from getPlanId_db[of p0 pid p1] Inr a d0 have d1: "db p1 = db p" by simp
      from c Inr a d1 have
        "restoreCheckpoint name now fault p
         = (case transaction (restore_body (checkpoint_snapshot c) pid now fault) (db p) of
              (Some e, d) \<Rightarrow> (failed e, p1\<lparr>db := d\<rparr>)
            | (None, d) \<Rightarrow> (succeeded, p1\<lparr>db := d\<rparr>))"
        by (simp add: restoreCheckpoint_def gc Let_def)
      with ran[of c pid p1] c Inr a gc show ?thesis by simp
    qed
  qed
qed

text \<open>
  C2.  A restore that does not succeed leaves every table of the store as it was before
  the call, whichever statement of the transaction failed.  A restore that succeeds has
  applied all three groups of writes together: the plan row has the name, the description
  and the stage of the snapshot, every step of the plan that the snapshot holds has the
  status and the timestamps of the snapshot, every file of the snapshot is there with the
  content of the snapshot, and nothing else has changed.  A failure of the engine at any
  statement of the transaction makes the restore of an existing checkpoint fail.
\<close>

theorem restoreCheckpoint_all_or_nothing:
  "(\<not> success (fst (restoreCheckpoint name now fault p))
      \<longrightarrow> db (snd (restoreCheckpoint name now fault p)) = db p)
   \<and> (success (fst (restoreCheckpoint name now fault p))
      \<longrightarrow> (\<exists>checkpoint pid.
             data (fst (getCheckpoint name p)) = Some (Some checkpoint)
             \<and> planId (snd (restoreCheckpoint name now fault p)) = Some pid
             \<and> db (snd (restoreCheckpoint name now fault p))
                 = store_after_restore (checkpoint_snapshot checkpoint) pid now (db p)))
   \<and> (\<forall>checkpoint k.
         data (fst (getCheckpoint name p)) = Some (Some checkpoint) \<and> fault = Some k
         \<and> k < 1 + length (snapshot_steps (checkpoint_snapshot checkpoint))
                 + length (snapshot_files (checkpoint_snapshot checkpoint))
        \<longrightarrow> \<not> success (fst (restoreCheckpoint name now fault p)))"
proof (cases rule: restoreCheckpoint_cases[of name now fault p])
  case not_found
  from not_found(1) have "\<not> success (fst (restoreCheckpoint name now fault p))"
    by (simp add: failed_def)
  with not_found(2) show ?thesis by blast
next
  case (no_plan e)
  from no_plan(1) have "\<not> success (fst (restoreCheckpoint name now fault p))"
    by (simp add: failed_def)
  with no_plan(2) show ?thesis by blast
next
  case (ran checkpoint pid p1)
  let ?body = "restore_body (checkpoint_snapshot checkpoint) pid now fault (db p)"
  show ?thesis
  proof (cases ?body)
    case (Inl e)
    with ran(3) have "restoreCheckpoint name now fault p = (failed e, p1\<lparr>db := db p\<rparr>)"
      by (simp add: transaction_def)
    then have "\<not> success (fst (restoreCheckpoint name now fault p))"
      "db (snd (restoreCheckpoint name now fault p)) = db p"
      by (simp_all add: failed_def)
    then show ?thesis by blast
  next
    case (Inr d')
    with ran(3) have r: "restoreCheckpoint name now fault p = (succeeded, p1\<lparr>db := d'\<rparr>)"
      by (simp add: transaction_def)
    from restore_body_Inr[OF Inr]
    have d': "d' = store_after_restore (checkpoint_snapshot checkpoint) pid now (db p)" .
    have nofault: "\<not> (\<exists>k. fault = Some k
             \<and> k < 1 + length (snapshot_steps (checkpoint_snapshot checkpoint))
                     + length (snapshot_files (checkpoint_snapshot checkpoint)))"
    proof
      assume "\<exists>k. fault = Some k
             \<and> k < 1 + length (snapshot_steps (checkpoint_snapshot checkpoint))
                     + length (snapshot_files (checkpoint_snapshot checkpoint))"
      then obtain k where "fault = Some k"
        "k < 1 + length (snapshot_steps (checkpoint_snapshot checkpoint))
               + length (snapshot_files (checkpoint_snapshot checkpoint))" by blast
      with restore_body_fault[of k "checkpoint_snapshot checkpoint" pid now "db p"] Inr
      show False by auto
    qed
    from getPlanId_planId[OF ran(2)] have "planId p1 = Some pid" .
    with r d' have ok: "success (fst (restoreCheckpoint name now fault p))"
      "planId (snd (restoreCheckpoint name now fault p)) = Some pid"
      "db (snd (restoreCheckpoint name now fault p))
         = store_after_restore (checkpoint_snapshot checkpoint) pid now (db p)"
      by (simp_all add: succeeded_def)
    have 3: "\<forall>c k. data (fst (getCheckpoint name p)) = Some (Some c) \<and> fault = Some k
         \<and> k < 1 + length (snapshot_steps (checkpoint_snapshot c))
                 + length (snapshot_files (checkpoint_snapshot c))
        \<longrightarrow> \<not> success (fst (restoreCheckpoint name now fault p))"
      using nofault ran(1) by auto
    from ok ran(1) 3 show ?thesis by blast
  qed
qed

theorem restoreCheckpoint_witness:
  "\<not> success (fst (restoreCheckpoint ''before'' ''2024-04-04T00:00:00Z'' (Some 2)
                     example_store_changed))
   \<and> db (snd (restoreCheckpoint ''before'' ''2024-04-04T00:00:00Z'' (Some 2)
                example_store_changed)) = db example_store_changed
   \<and> success (fst (restoreCheckpoint ''before'' ''2024-04-04T00:00:00Z'' None
                     example_store_changed))
   \<and> db (snd (restoreCheckpoint ''before'' ''2024-04-04T00:00:00Z'' None
                example_store_changed))
       = store_after_restore (checkpoint_snapshot example_checkpoint) 1 ''2024-04-04T00:00:00Z''
           (db example_store_changed)
   \<and> map_option meta_name (data (fst (getMetadata example_store_changed))) = Some ''Renamed''
   \<and> map_option meta_stage (data (fst (getMetadata example_store_changed))) = Some Built
   \<and> map step_status (data_or_empty (fst (getSteps example_store_changed)))
       = [completed, pending]
   \<and> map step_completedAt (data_or_empty (fst (getSteps example_store_changed)))
       = [Some ''2024-02-01T00:00:00Z'', None]
   \<and> map file_content (data_or_empty (fst (getFiles example_store_changed)))
       = [''a better idea'']
   \<and> data (fst (getMetadata (snd (restoreCheckpoint ''before'' ''2024-04-04T00:00:00Z'' None
                                     example_store_changed))))
       = Some (example_metadata\<lparr>meta_updatedAt := ''2024-04-04T00:00:00Z''\<rparr>)
   \<and> data (fst (getSteps (snd (restoreCheckpoint ''before'' ''2024-04-04T00:00:00Z'' None
                                  example_store_changed))))
       = Some [example_step 1 ''use jwt'', example_step 2 ''JWT jwt Jwt jwT JWT'']
   \<and> data (fst (getFiles (snd (restoreCheckpoint ''before'' ''2024-04-04T00:00:00Z'' None
                                  example_store_changed))))
       = Some [(example_file ''IDEA.md'' ''an idea'')
                 \<lparr>file_updatedAt := ''2024-04-04T00:00:00Z''\<rparr>]
   \<and> success (fst (restoreCheckpoint ''before'' ''2024-04-04T00:00:00Z'' None
                     example_store_diverged))
   \<and> db (snd (restoreCheckpoint ''before'' ''2024-04-04T00:00:00Z'' None
                example_store_diverged))
       = store_after_restore (checkpoint_snapshot example_checkpoint) 1 ''2024-04-04T00:00:00Z''
           (db example_store_diverged)
   \<and> data (fst (getFiles example_store_diverged)) = Some []
   \<and> data (fst (getSteps (snd (restoreCheckpoint ''before'' ''2024-04-04T00:00:00Z'' None
                                  example_store_diverged))))
       = Some [example_step 1 ''use jwt'', example_step 2 ''JWT jwt Jwt jwT JWT'',
               example_step 3 ''added later'']
   \<and> data (fst (getFiles (snd (restoreCheckpoint ''before'' ''2024-04-04T00:00:00Z'' None
                                  example_store_diverged))))
       = Some [(example_file ''IDEA.md'' ''an idea'')
                 \<lparr>file_createdAt := ''2024-04-04T00:00:00Z'',
                  file_updatedAt := ''2024-04-04T00:00:00Z''\<rparr>]"
proof -
  let ?bad = "restoreCheckpoint ''before'' ''2024-04-04T00:00:00Z'' (Some 2) example_store_changed"
  let ?good = "restoreCheckpoint ''before'' ''2024-04-04T00:00:00Z'' None example_store_changed"
  let ?again = "restoreCheckpoint ''before'' ''2024-04-04T00:00:00Z'' None example_store_diverged"
  have f: "\<not> success (fst ?bad)" by code_simp
  have s: "success (fst ?good)" by code_simp
  have c: "data (fst (getCheckpoint ''before'' example_store_changed))
             = Some (Some example_checkpoint)" by code_simp
  have i: "planId (snd ?good) = Some 1" by code_simp
  have s': "success (fst ?again)" by code_simp
  have c': "data (fst (getCheckpoint ''before'' example_store_diverged))
             = Some (Some example_checkpoint)" by code_simp
  have i': "planId (snd ?again) = Some 1" by code_simp
  have before:
    "map_option meta_name (data (fst (getMetadata example_store_changed))) = Some ''Renamed''"
    "map_option meta_stage (data (fst (getMetadata example_store_changed))) = Some Built"
    "map step_status (data_or_empty (fst (getSteps example_store_changed)))
       = [completed, pending]"
    "map step_completedAt (data_or_empty (fst (getSteps example_store_changed)))
       = [Some ''2024-02-01T00:00:00Z'', None]"
    "map file_content (data_or_empty (fst (getFiles example_store_changed)))
       = [''a better idea'']"
    "data (fst (getFiles example_store_diverged)) = Some []"
    by code_simp+
  have after:
    "data (fst (getMetadata (snd ?good)))
       = Some (example_metadata\<lparr>meta_updatedAt := ''2024-04-04T00:00:00Z''\<rparr>)"
    "data (fst (getSteps (snd ?good)))
       = Some [example_step 1 ''use jwt'', example_step 2 ''JWT jwt Jwt jwT JWT'']"
    "data (fst (getFiles (snd ?good)))
       = Some [(example_file ''IDEA.md'' ''an idea'')
                 \<lparr>file_updatedAt := ''2024-04-04T00:00:00Z''\<rparr>]"
    "data (fst (getSteps (snd ?again)))
       = Some [example_step 1 ''use jwt'', example_step 2 ''JWT jwt Jwt jwT JWT'',
               example_step 3 ''added later'']"
    "data (fst (getFiles (snd ?again)))
       = Some [(example_file ''IDEA.md'' ''an idea'')
                 \<lparr>file_createdAt := ''2024-04-04T00:00:00Z'',
                  file_updatedAt := ''2024-04-04T00:00:00Z''\<rparr>]"
    by code_simp+
  from restoreCheckpoint_all_or_nothing[of "''before''" "''2024-04-04T00:00:00Z''" "Some 2"
      example_store_changed] f
  have 1: "db (snd ?bad) = db example_store_changed" by blast
  from restoreCheckpoint_all_or_nothing[of "''before''" "''2024-04-04T00:00:00Z''" None
      example_store_changed] s c i
  have 2: "db (snd ?good)
       = store_after_restore (checkpoint_snapshot example_checkpoint) 1 ''2024-04-04T00:00:00Z''
           (db example_store_changed)" by auto
  from restoreCheckpoint_all_or_nothing[of "''before''" "''2024-04-04T00:00:00Z''" None
      example_store_diverged] s' c' i'
  have 3: "db (snd ?again)
       = store_after_restore (checkpoint_snapshot example_checkpoint) 1 ''2024-04-04T00:00:00Z''
           (db example_store_diverged)" by auto
  from f 1 s 2 s' 3 before after show ?thesis by (intro conjI)
qed

section \<open>The migration round trip\<close>

lemma getPlanId_rest:
  "getPlanId p = Inr (pid, p1) \<Longrightarrow>
     path p1 = path p \<and> uuid_stream p1 = uuid_stream p \<and> uuids_drawn p1 = uuids_drawn p"
  by (auto simp: getPlanId_def split: option.splits sum.splits list.splits)








subsection \<open>Steps\<close>




subsection \<open>Files\<close>



subsection \<open>Timeline events and checkpoints: what they leave alone\<close>





subsection \<open>Evidence and feedback: every insert goes through\<close>








subsection \<open>A faithful copy passes the validator\<close>










subsection \<open>What the uniqueness constraints give the reads of one plan\<close>





subsection \<open>The copy phases on a readable source and a new target\<close>





subsection \<open>The validator on the source and the copy\<close>



subsection \<open>After the copy\<close>


subsection \<open>The identifiers of the example target\<close>






subsection \<open>The round trip\<close>




end
